theory Spec2Isabelle
  imports Complex_Main
begin

section \<open>Python values, exceptions and list subscripts\<close>

text \<open>
  The scripts are Python glue over the Kratos engine. An exception is a value; a call
  that may raise returns \<open>exn + 'r\<close> with \<open>Inl\<close> for the exception. Calls that may
  also change the state they run on return the state next to the result.
\<close>

datatype exn =
    IndexError
  | NameError
  | SyntaxError
  | OSError
  | EngineError string

text \<open>
  Reading \<open>xs[i]\<close>: a subscript from \<open>0\<close> to \<open>len(xs) - 1\<close> selects from the front,
  one from \<open>-len(xs)\<close> to \<open>-1\<close> selects from the back, any other raises IndexError.
\<close>

definition py_getitem :: "'a list \<Rightarrow> int \<Rightarrow> exn + 'a" where
  "py_getitem xs i =
     (if 0 \<le> i \<and> i < int (length xs) then Inr (xs ! nat i)
      else if i < 0 \<and> - int (length xs) \<le> i then Inr (xs ! nat (int (length xs) + i))
      else Inl IndexError)"

text \<open>Writing \<open>xs[i] = v\<close> follows the same rule for the subscript.\<close>

definition py_setitem :: "'a list \<Rightarrow> int \<Rightarrow> 'a \<Rightarrow> exn + 'a list" where
  "py_setitem xs i v =
     (if 0 \<le> i \<and> i < int (length xs) then Inr (xs[nat i := v])
      else if i < 0 \<and> - int (length xs) \<le> i then Inr (xs[nat (int (length xs) + i) := v])
      else Inl IndexError)"

text \<open>\<open>[0] * n * d\<close>: a list of zeros, empty when a factor is not positive.\<close>

definition py_zeros :: "nat \<Rightarrow> int \<Rightarrow> 'a::zero list" where
  "py_zeros n d = replicate (n * nat d) 0"

text \<open>\<open>range(d)\<close>: the subscripts 0, ..., d - 1; empty when \<open>d \<le> 0\<close>.\<close>

definition py_range :: "int \<Rightarrow> nat list" where
  "py_range d = [0 ..< nat d]"

section \<open>The engine's nodal storage\<close>

text \<open>
  Modelled from the spec: the engine (Model, ModelPart, Node, Variable) is not part of
  the sources; the spec says that nodes, variables and model parts are owned by the
  engine and that nodal value storage is delegated to it. The model keeps what the
  scripts touch: the model parts by name, each with the identifiers of its nodes in
  iteration order; the registered variable names; and, per node, variable and
  solution-step index, the stored value as the list of its components. A node is an
  identifier into the store, so two model parts may share nodes. The reading
  operations return the state as it was; \<open>SetSolutionStepValue\<close> stores a copy of the
  list it is given. An operation on a missing model part, variable or storage slot
  raises an engine exception.
\<close>

record 'a kratos =
  model_parts :: "string \<Rightarrow> nat list option"
  variables :: "string \<Rightarrow> bool"
  solution_step_data :: "nat \<Rightarrow> string \<Rightarrow> nat \<Rightarrow> 'a list option"

definition model_getitem ::
  "string \<Rightarrow> 'a kratos \<Rightarrow> (exn + nat list) \<times> 'a kratos" where
  "model_getitem mp eng =
     (case model_parts eng mp of
        None \<Rightarrow> (Inl (EngineError ''model part not found''), eng)
      | Some nodes \<Rightarrow> (Inr nodes, eng))"

definition GetVariable ::
  "string \<Rightarrow> 'a kratos \<Rightarrow> (exn + string) \<times> 'a kratos" where
  "GetVariable v eng =
     (if variables eng v then (Inr v, eng)
      else (Inl (EngineError ''variable not registered''), eng))"

definition GetSolutionStepValue ::
  "nat \<Rightarrow> string \<Rightarrow> nat \<Rightarrow> 'a kratos \<Rightarrow> (exn + 'a list) \<times> 'a kratos" where
  "GetSolutionStepValue node v step eng =
     (case solution_step_data eng node v step of
        None \<Rightarrow> (Inl (EngineError ''no solution step data''), eng)
      | Some val \<Rightarrow> (Inr val, eng))"

definition SetSolutionStepValue ::
  "nat \<Rightarrow> string \<Rightarrow> nat \<Rightarrow> 'a list \<Rightarrow> 'a kratos \<Rightarrow> (exn + unit) \<times> 'a kratos" where
  "SetSolutionStepValue node v step val eng =
     (case solution_step_data eng node v step of
        None \<Rightarrow> (Inl (EngineError ''no solution step data''), eng)
      | Some _ \<Rightarrow>
          (Inr (),
           eng\<lparr>solution_step_data :=
                 (solution_step_data eng)
                   (node := (solution_step_data eng node)
                      (v := (solution_step_data eng node v)(step \<mapsto> val)))\<rparr>))"

section \<open>CouplingInterfaceData\<close>

text \<open>
  The fields set by \<open>__init__\<close> that the methods read. \<open>self.solver.model\<close> is the
  engine state the methods run on.
\<close>

record CouplingInterfaceData =
  name :: string
  dimension :: int
  location :: string
  geometry_name :: string

subsection \<open>GetPythonList\<close>

text \<open>
  The inner loop \<open>for i in range(self.dimension): data[node_index*self.dimension + i] =
  data_value[i]\<close>, over the subscripts still to do.
\<close>

fun GetPythonList_inner ::
  "'a list \<Rightarrow> int \<Rightarrow> nat \<Rightarrow> nat list \<Rightarrow> 'a list \<Rightarrow> exn + 'a list" where
  "GetPythonList_inner data_value d node_index [] data = Inr data"
| "GetPythonList_inner data_value d node_index (i # is) data =
     (case py_getitem data_value (int i) of
        Inl e \<Rightarrow> Inl e
      | Inr c \<Rightarrow>
          (case py_setitem data (int node_index * d + int i) c of
             Inl e \<Rightarrow> Inl e
           | Inr data' \<Rightarrow> GetPythonList_inner data_value d node_index is data'))"

text \<open>The outer loop \<open>for node in data_mesh.Nodes\<close>, with \<open>node_index\<close> counted up.\<close>

fun GetPythonList_loop ::
  "string \<Rightarrow> nat \<Rightarrow> int \<Rightarrow> nat list \<Rightarrow> nat \<Rightarrow> 'a list \<Rightarrow> 'a kratos
     \<Rightarrow> (exn + 'a list) \<times> 'a kratos" where
  "GetPythonList_loop data_variable step d [] node_index data eng = (Inr data, eng)"
| "GetPythonList_loop data_variable step d (node # nodes) node_index data eng =
     (case GetSolutionStepValue node data_variable step eng of
        (Inl e, eng') \<Rightarrow> (Inl e, eng')
      | (Inr data_value, eng') \<Rightarrow>
          (case GetPythonList_inner data_value d node_index (py_range d) data of
             Inl e \<Rightarrow> (Inl e, eng')
           | Inr data' \<Rightarrow>
               GetPythonList_loop data_variable step d nodes (node_index + 1) data' eng'))"

definition GetPythonList ::
  "CouplingInterfaceData \<Rightarrow> nat \<Rightarrow> 'a::zero kratos \<Rightarrow> (exn + 'a list) \<times> 'a kratos" where
  "GetPythonList self solution_step_index eng =
     (case model_getitem (geometry_name self) eng of
        (Inl e, eng1) \<Rightarrow> (Inl e, eng1)
      | (Inr nodes, eng1) \<Rightarrow>
          (let data = py_zeros (length nodes) (dimension self)
           in case GetVariable (name self) eng1 of
                (Inl e, eng2) \<Rightarrow> (Inl e, eng2)
              | (Inr data_variable, eng2) \<Rightarrow>
                  GetPythonList_loop data_variable solution_step_index (dimension self)
                    nodes 0 data eng2))"

text \<open>
  \<open>GetNumpyArray\<close> converts the list with \<open>np.asarray(..., dtype=np.float64)\<close>; the
  conversion of one entry is the parameter \<open>to_float64\<close>.
\<close>

definition GetNumpyArray ::
  "('a \<Rightarrow> 'b) \<Rightarrow> CouplingInterfaceData \<Rightarrow> nat \<Rightarrow> 'a::zero kratos
     \<Rightarrow> (exn + 'b list) \<times> 'a kratos" where
  "GetNumpyArray to_float64 self solution_step_index eng =
     (case GetPythonList self solution_step_index eng of
        (Inl e, eng') \<Rightarrow> (Inl e, eng')
      | (Inr data, eng') \<Rightarrow> (Inr (map to_float64 data), eng'))"

subsection \<open>ApplyUpdateToData\<close>

text \<open>
  The inner loop \<open>for i in range(self.dimension): updated_value[i] =
  update[node_index*self.dimension + i]\<close>: the right-hand side is read first, then the
  buffer is written.
\<close>

fun ApplyUpdateToData_inner ::
  "'a list \<Rightarrow> int \<Rightarrow> nat \<Rightarrow> nat list \<Rightarrow> 'a list \<Rightarrow> exn + 'a list" where
  "ApplyUpdateToData_inner update d node_index [] updated_value = Inr updated_value"
| "ApplyUpdateToData_inner update d node_index (i # is) updated_value =
     (case py_getitem update (int node_index * d + int i) of
        Inl e \<Rightarrow> Inl e
      | Inr c \<Rightarrow>
          (case py_setitem updated_value (int i) c of
             Inl e \<Rightarrow> Inl e
           | Inr updated_value' \<Rightarrow>
               ApplyUpdateToData_inner update d node_index is updated_value'))"

text \<open>
  The outer loop. The buffer \<open>updated_value\<close> is one list for the whole call: what a
  node leaves in it is still there for the next node.
\<close>

fun ApplyUpdateToData_loop ::
  "string \<Rightarrow> 'a list \<Rightarrow> int \<Rightarrow> nat list \<Rightarrow> nat \<Rightarrow> 'a list \<Rightarrow> 'a kratos
     \<Rightarrow> (exn + unit) \<times> 'a kratos" where
  "ApplyUpdateToData_loop data_variable update d [] node_index updated_value eng =
     (Inr (), eng)"
| "ApplyUpdateToData_loop data_variable update d (node # nodes) node_index updated_value eng =
     (case ApplyUpdateToData_inner update d node_index (py_range d) updated_value of
        Inl e \<Rightarrow> (Inl e, eng)
      | Inr updated_value' \<Rightarrow>
          (case SetSolutionStepValue node data_variable 0 updated_value' eng of
             (Inl e, eng') \<Rightarrow> (Inl e, eng')
           | (Inr _, eng') \<Rightarrow>
               ApplyUpdateToData_loop data_variable update d nodes (node_index + 1)
                 updated_value' eng'))"

definition ApplyUpdateToData ::
  "CouplingInterfaceData \<Rightarrow> 'a::zero list \<Rightarrow> 'a kratos \<Rightarrow> (exn + unit) \<times> 'a kratos" where
  "ApplyUpdateToData self update eng =
     (case model_getitem (geometry_name self) eng of
        (Inl e, eng1) \<Rightarrow> (Inl e, eng1)
      | (Inr nodes, eng1) \<Rightarrow>
          (case GetVariable (name self) eng1 of
             (Inl e, eng2) \<Rightarrow> (Inl e, eng2)
           | (Inr data_variable, eng2) \<Rightarrow>
               ApplyUpdateToData_loop data_variable update (dimension self) nodes 0
                 (replicate 3 0) eng2))"

subsection \<open>The round trip\<close>

text \<open>
  The composite call \<open>ApplyUpdateToData(GetPythonList(0))\<close>: the argument is evaluated
  first, and an exception in it is the result of the whole call.
\<close>

definition ApplyUpdateToData_of_GetPythonList ::
  "CouplingInterfaceData \<Rightarrow> 'a::zero kratos \<Rightarrow> (exn + unit) \<times> 'a kratos" where
  "ApplyUpdateToData_of_GetPythonList self eng =
     (case GetPythonList self 0 eng of
        (Inl e, eng1) \<Rightarrow> (Inl e, eng1)
      | (Inr data, eng1) \<Rightarrow> ApplyUpdateToData self data eng1)"

subsection \<open>A concrete engine state\<close>

text \<open>
  Three nodes in two model parts that share node 2, a model part without nodes, and a
  model part whose only node has no solution step data. Each of the three nodes holds
  two solution steps of a variable with three components and of a variable with four.
\<close>

definition example_engine :: "real kratos" where
  "example_engine =
     \<lparr>model_parts = [''interface'' \<mapsto> [1, 2], ''fluid'' \<mapsto> [2, 3], ''empty'' \<mapsto> [],
                     ''detached'' \<mapsto> [4]],
      variables = (\<lambda>v. v = ''DISPLACEMENT'' \<or> v = ''STRESS''),
      solution_step_data =
        (\<lambda>n v s. if n \<in> {1, 2, 3} \<and> s < 2 then
                     (if v = ''DISPLACEMENT'' then Some [real n, 10, 20]
                      else if v = ''STRESS'' then Some [real n, 1, 2, 3]
                      else None)
                   else None)\<rparr>"

definition example_data :: "string \<Rightarrow> int \<Rightarrow> string \<Rightarrow> CouplingInterfaceData" where
  "example_data v d g =
     \<lparr>name = v, dimension = d, location = ''node_historical'', geometry_name = g\<rparr>"

section \<open>SmallTestsMPI\<close>

subsection \<open>The working directory\<close>

text \<open>
  The process state: the working directory and the directories that exist, which
  \<open>os.getcwd\<close> and \<open>os.chdir\<close> touch, and the rest of the world, which only
  the calls outside the sources read and change. Paths are absolute, as
  \<open>os.getcwd()\<close> returns them. \<open>os.chdir\<close> raises OSError when its argument is
  not an existing directory, and then leaves the working directory alone.
\<close>

record 'w process =
  cwd :: string
  directories :: "string \<Rightarrow> bool"
  world :: 'w


definition os_chdir :: "string \<Rightarrow> 'w process \<Rightarrow> (exn + unit) \<times> 'w process" where
  "os_chdir path st =
     (if directories st path then (Inr (), st\<lparr>cwd := path\<rparr>) else (Inl OSError, st))"

subsection \<open>controlledExecutionScope\<close>

record controlledExecutionScope =
  currentPath :: string
  scope :: string


definition controlledExecutionScope_enter ::
  "controlledExecutionScope \<Rightarrow> 'w process \<Rightarrow> (exn + unit) \<times> 'w process" where
  "controlledExecutionScope_enter self st = os_chdir (scope self) st"

text \<open>\<open>__exit__\<close> returns None, so it never swallows the exception of the block.\<close>

definition controlledExecutionScope_exit ::
  "controlledExecutionScope \<Rightarrow> 'w process \<Rightarrow> (exn + unit) \<times> 'w process" where
  "controlledExecutionScope_exit self st = os_chdir (currentPath self) st"

text \<open>
  The statement \<open>with mgr: body\<close>. When \<open>__enter__\<close> raises, the body and \<open>__exit__\<close>
  do not run. Otherwise \<open>__exit__\<close> runs after the body, whether the body returned or
  raised; an exception of \<open>__exit__\<close> replaces the outcome of the body, and without one
  the outcome of the body is the outcome of the statement.
\<close>

definition py_with ::
  "controlledExecutionScope \<Rightarrow> ('w process \<Rightarrow> (exn + 'r) \<times> 'w process) \<Rightarrow> 'w process
     \<Rightarrow> (exn + 'r) \<times> 'w process" where
  "py_with mgr body st =
     (case controlledExecutionScope_enter mgr st of
        (Inl e, st1) \<Rightarrow> (Inl e, st1)
      | (Inr _, st1) \<Rightarrow>
          (case body st1 of
             (r, st2) \<Rightarrow>
               (case controlledExecutionScope_exit mgr st2 of
                  (Inl e, st3) \<Rightarrow> (Inl e, st3)
                | (Inr _, st3) \<Rightarrow> (r, st3))))"

subsection \<open>NearestNeighborMapperTestFactory\<close>













subsection \<open>A concrete process and environment\<close>





section \<open>fluid_fraction_test_analysis\<close>

text \<open>
  The engine's \<open>Parameters\<close> object is the JSON text it was built from; the values
  that reach the constructor of the analysis are the model, a \<open>Parameters\<close> object or
  a number.
\<close>

datatype Parameters = Parameters string

datatype py_object =
    Model_object
  | Parameters_object Parameters
  | Int_object int

text \<open>
  The post-process tool keeps the argument it was built with. The analysis object has
  the two attributes that \<open>FluidFractionTestAnalysis.__init__\<close> assigns itself.
\<close>

datatype ErrorProjectionPostProcessTool = ErrorProjectionPostProcessTool py_object

record FluidFractionTestAnalysis =
  projector_post_process :: ErrorProjectionPostProcessTool
  project_parameters :: Parameters

text \<open>
  What the script calls outside the sources, each with the exception it may raise:
  reading a file, the engine's JSON parser, the constructor of the post-process tool
  and the constructor of the base class \<open>SwimmingDEMAnalysis\<close>.
\<close>

record swimming_dem_env =
  read_file :: "string \<Rightarrow> exn + string"
  Parameters_init :: "string \<Rightarrow> exn option"
  ErrorProjectionPostProcessTool_init :: "py_object \<Rightarrow> exn option"
  SwimmingDEMAnalysis_init :: "py_object \<Rightarrow> Parameters \<Rightarrow> exn option"

text \<open>
  \<open>__init__(self, model, iteration, varying_parameters = Parameters("{}"))\<close>. The
  third argument is optional: \<open>None\<close> stands for a call that does not pass it, which
  then takes the default.
\<close>

definition FluidFractionTestAnalysis_init ::
  "swimming_dem_env \<Rightarrow> py_object \<Rightarrow> py_object \<Rightarrow> Parameters option
     \<Rightarrow> exn + FluidFractionTestAnalysis" where
  "FluidFractionTestAnalysis_init env model iteration varying_parameters_arg =
     (let varying_parameters =
            (case varying_parameters_arg of
               None \<Rightarrow> Parameters ''{}''
             | Some p \<Rightarrow> p)
      in case ErrorProjectionPostProcessTool_init env iteration of
           Some e \<Rightarrow> Inl e
         | None \<Rightarrow>
             (case SwimmingDEMAnalysis_init env model varying_parameters of
                Some e \<Rightarrow> Inl e
              | None \<Rightarrow>
                  Inr \<lparr>projector_post_process = ErrorProjectionPostProcessTool iteration,
                       project_parameters = varying_parameters\<rparr>))"

text \<open>
  The main program up to the object \<open>test\<close> on which \<open>Run()\<close> is called:
  \<open>FluidFractionTestAnalysis(model, parameters)\<close> passes two positional arguments.
\<close>

definition FluidFractionTestAnalysis_main ::
  "swimming_dem_env \<Rightarrow> exn + FluidFractionTestAnalysis" where
  "FluidFractionTestAnalysis_main env =
     (case read_file env ''ProjectParameters.json'' of
        Inl e \<Rightarrow> Inl e
      | Inr contents \<Rightarrow>
          (case Parameters_init env contents of
             Some e \<Rightarrow> Inl e
           | None \<Rightarrow>
               (let parameters = Parameters contents;
                    model = Model_object
                in FluidFractionTestAnalysis_init env model (Parameters_object parameters)
                     None)))"

text \<open>An environment with the given file contents in which no call raises.\<close>

definition example_swimming_dem :: "string \<Rightarrow> swimming_dem_env" where
  "example_swimming_dem contents =
     \<lparr>read_file = (\<lambda>file. Inr contents),
      Parameters_init = (\<lambda>s. None),
      ErrorProjectionPostProcessTool_init = (\<lambda>iteration. None),
      SwimmingDEMAnalysis_init = (\<lambda>model p. None)\<rparr>"

section \<open>main_fsi_aitken_for_testing\<close>

text \<open>
  The names of the module: what its top level binds, in order, and the methods of its
  classes. Python compiles a file as a whole before it runs any of it; the name after
  \<open>def\<close> or \<open>class\<close> must be an identifier, which starts with a letter or an
  underscore and goes on with letters, digits and underscores.
\<close>

datatype toplevel =
    Import string
  | FunctionDef string
  | ClassDef string "string list"

definition main_fsi_aitken_for_testing :: "toplevel list" where
  "main_fsi_aitken_for_testing =
     [Import ''KratosMultiphysics'',
      Import ''Logger'',
      Import ''KratosFemDem'',
      Import ''MainCouplingPfemFemDemAitken'',
      Import ''KratosUnittest'',
      Import ''os'',
      Import ''shutil'',
      FunctionDef ''Wait'',
      FunctionDef ''KratosPrintInfo'',
      ClassDef ''MainCouplingPfemFemDemAitkenForTestingSolution''
        [''FinalizeSolutionStep'', ''CheckControlValuesForTesting'', ''Finalize''],
      ClassDef ''TestAnalytics'' [''setUp'', ''2d_fsi'']]"

definition is_identifier_start :: "char \<Rightarrow> bool" where
  "is_identifier_start c =
     (c \<in> set ''abcdefghijklmnopqrstuvwxyzABCDEFGHIJKLMNOPQRSTUVWXYZ_'')"

definition is_identifier_part :: "char \<Rightarrow> bool" where
  "is_identifier_part c = (is_identifier_start c \<or> c \<in> set ''0123456789'')"

fun is_identifier :: "string \<Rightarrow> bool" where
  "is_identifier [] = False"
| "is_identifier (c # cs) = (is_identifier_start c \<and> list_all is_identifier_part cs)"

fun well_named :: "toplevel \<Rightarrow> bool" where
  "well_named (Import n) = is_identifier n"
| "well_named (FunctionDef n) = is_identifier n"
| "well_named (ClassDef n methods) = (is_identifier n \<and> list_all is_identifier methods)"

definition py_compile :: "toplevel list \<Rightarrow> exn + toplevel list" where
  "py_compile source = (if list_all well_named source then Inr source else Inl SyntaxError)"

text \<open>The global names of a module that has run, and the lookup of one of them.\<close>

fun bound_name :: "toplevel \<Rightarrow> string" where
  "bound_name (Import n) = n"
| "bound_name (FunctionDef n) = n"
| "bound_name (ClassDef n methods) = n"

definition load_global :: "toplevel list \<Rightarrow> string \<Rightarrow> exn + string" where
  "load_global source n =
     (if n \<in> set (map bound_name source) then Inr n else Inl NameError)"

text \<open>
  \<open>Finalize\<close> of the solution class starts with
  \<open>super(MainCouplingFemDemForTestingSolution, self)\<close>, which looks that name up
  among the globals; the call of the base method is outside the sources.
\<close>

definition Finalize :: "toplevel list \<Rightarrow> exn + unit" where
  "Finalize source =
     (case load_global source ''MainCouplingFemDemForTestingSolution'' of
        Inl e \<Rightarrow> Inl e
      | Inr c \<Rightarrow> Inr ())"

text \<open>
  \<open>KratosUnittest.main()\<close> runs, of a test case class, the methods whose names start
  with \<open>test\<close>.
\<close>

definition getTestCaseNames :: "string list \<Rightarrow> string list" where
  "getTestCaseNames methods = filter (\<lambda>m. take 4 m = ''test'') methods"

fun methods_of :: "toplevel list \<Rightarrow> string \<Rightarrow> string list" where
  "methods_of [] c = []"
| "methods_of (ClassDef n methods # rest) c = (if n = c then methods else methods_of rest c)"
| "methods_of (other # rest) c = methods_of rest c"

section \<open>Properties of the list subscripts and the loops\<close>

lemma py_getitem_nat:
  "py_getitem xs (int j) = (if j < length xs then Inr (xs ! j) else Inl IndexError)"
  by (simp add: py_getitem_def)

lemma py_setitem_nat:
  "py_setitem xs (int j) v = (if j < length xs then Inr (xs[j := v]) else Inl IndexError)"
  by (simp add: py_setitem_def)

lemma flat_index: "i < nat d \<Longrightarrow> int k * d + int i = int (k * nat d + i)"
  by (cases "0 \<le> d") auto

lemma py_setitem_flat:
  "i < nat d \<Longrightarrow> py_setitem xs (int k * d + int i) v =
     (if k * nat d + i < length xs then Inr (xs[k * nat d + i := v]) else Inl IndexError)"
  by (simp only: flat_index py_setitem_nat)

lemma py_getitem_flat:
  "i < nat d \<Longrightarrow> py_getitem xs (int k * d + int i) =
     (if k * nat d + i < length xs then Inr (xs ! (k * nat d + i)) else Inl IndexError)"
  by (simp only: flat_index py_getitem_nat)

lemma GetPythonList_inner_ok:
  assumes "\<forall>i\<in>set js. i < nat d \<and> i < length data_value \<and> k * nat d + i < length data"
  shows "\<exists>data'. GetPythonList_inner data_value d k js data = Inr data'
           \<and> length data' = length data
           \<and> (\<forall>i\<in>set js. data' ! (k * nat d + i) = data_value ! i)
           \<and> (\<forall>j. j \<notin> (\<lambda>i. k * nat d + i) ` set js \<longrightarrow> data' ! j = data ! j)"
  using assms
proof (induction js arbitrary: data)
  case Nil
  then show ?case by simp
next
  case (Cons i js)
  let ?data1 = "data[k * nat d + i := data_value ! i]"
  have i: "i < nat d" "i < length data_value" "k * nat d + i < length data"
    using Cons.prems by auto
  have step: "GetPythonList_inner data_value d k (i # js) data
                = GetPythonList_inner data_value d k js ?data1"
    using i by (simp add: py_getitem_nat py_setitem_flat)
  have "\<forall>i\<in>set js. i < nat d \<and> i < length data_value \<and> k * nat d + i < length ?data1"
    using Cons.prems by simp
  from Cons.IH[OF this] obtain data' where d':
    "GetPythonList_inner data_value d k js ?data1 = Inr data'"
    "length data' = length ?data1"
    "\<forall>i\<in>set js. data' ! (k * nat d + i) = data_value ! i"
    "\<forall>j. j \<notin> (\<lambda>i. k * nat d + i) ` set js \<longrightarrow> data' ! j = ?data1 ! j"
    by blast
  have "data' ! (k * nat d + i) = data_value ! i"
  proof (cases "i \<in> set js")
    case True
    then show ?thesis using d'(3) by blast
  next
    case False
    then have "k * nat d + i \<notin> (\<lambda>i. k * nat d + i) ` set js" by auto
    then show ?thesis using d'(4) i(3) by simp
  qed
  moreover have "\<forall>j. j \<notin> (\<lambda>i. k * nat d + i) ` set (i # js) \<longrightarrow> data' ! j = data ! j"
    using d'(4) by auto
  ultimately show ?case using step d' by simp
qed

lemma GetPythonList_inner_range:
  assumes "nat d \<le> length data_value" and "(Suc k) * nat d \<le> length data"
  shows "\<exists>data'. GetPythonList_inner data_value d k (py_range d) data = Inr data'
           \<and> length data' = length data
           \<and> (\<forall>i<nat d. data' ! (k * nat d + i) = data_value ! i)
           \<and> (\<forall>j<k * nat d. data' ! j = data ! j)"
proof -
  have "\<forall>i\<in>set (py_range d). i < nat d \<and> i < length data_value \<and> k * nat d + i < length data"
    using assms by (auto simp: py_range_def)
  from GetPythonList_inner_ok[OF this] obtain data' where d':
    "GetPythonList_inner data_value d k (py_range d) data = Inr data'"
    "length data' = length data"
    "\<forall>i\<in>set (py_range d). data' ! (k * nat d + i) = data_value ! i"
    "\<forall>j. j \<notin> (\<lambda>i. k * nat d + i) ` set (py_range d) \<longrightarrow> data' ! j = data ! j"
    by blast
  have "\<forall>j<k * nat d. data' ! j = data ! j"
  proof (intro allI impI)
    fix j assume "j < k * nat d"
    then have "j \<notin> (\<lambda>i. k * nat d + i) ` set (py_range d)" by auto
    then show "data' ! j = data ! j" using d'(4) by blast
  qed
  moreover have "\<forall>i<nat d. data' ! (k * nat d + i) = data_value ! i"
    using d'(3) by (simp add: py_range_def)
  ultimately show ?thesis using d'(1,2) by blast
qed

lemma GetPythonList_loop_ok:
  assumes "\<forall>m<length nodes. \<exists>v. solution_step_data eng (nodes ! m) var step = Some v
             \<and> nat d \<le> length v"
    and "(k0 + length nodes) * nat d \<le> length data"
  shows "\<exists>data'. GetPythonList_loop var step d nodes k0 data eng = (Inr data', eng)
           \<and> length data' = length data
           \<and> (\<forall>m<length nodes. \<forall>i<nat d.
                 data' ! ((k0 + m) * nat d + i)
                   = the (solution_step_data eng (nodes ! m) var step) ! i)
           \<and> (\<forall>j<k0 * nat d. data' ! j = data ! j)"
  using assms
proof (induction nodes arbitrary: k0 data)
  case Nil
  then show ?case by simp
next
  case (Cons node nodes)
  from Cons.prems(1) obtain v where v:
    "solution_step_data eng node var step = Some v" "nat d \<le> length v"
    by fastforce
  have "Suc k0 * nat d \<le> (k0 + length (node # nodes)) * nat d"
    by (intro mult_le_mono1) simp
  then have room: "Suc k0 * nat d \<le> length data"
    using Cons.prems(2) by linarith
  from GetPythonList_inner_range[OF v(2) room] obtain data1 where d1:
    "GetPythonList_inner v d k0 (py_range d) data = Inr data1"
    "length data1 = length data"
    "\<forall>i<nat d. data1 ! (k0 * nat d + i) = v ! i"
    "\<forall>j<k0 * nat d. data1 ! j = data ! j"
    by blast
  have step: "GetPythonList_loop var step d (node # nodes) k0 data eng
                = GetPythonList_loop var step d nodes (Suc k0) data1 eng"
    using v(1) d1(1) by (simp add: GetSolutionStepValue_def)
  have p1: "\<forall>m<length nodes. \<exists>v. solution_step_data eng (nodes ! m) var step = Some v
              \<and> nat d \<le> length v"
    using Cons.prems(1) by fastforce
  have p2: "(Suc k0 + length nodes) * nat d \<le> length data1"
    using Cons.prems(2) d1(2) by simp
  from Cons.IH[OF p1 p2] obtain data' where d':
    "GetPythonList_loop var step d nodes (Suc k0) data1 eng = (Inr data', eng)"
    "length data' = length data1"
    "\<forall>m<length nodes. \<forall>i<nat d.
        data' ! ((Suc k0 + m) * nat d + i) = the (solution_step_data eng (nodes ! m) var step) ! i"
    "\<forall>j<Suc k0 * nat d. data' ! j = data1 ! j"
    by blast
  have first: "\<forall>i<nat d. data' ! (k0 * nat d + i) = v ! i"
  proof (intro allI impI)
    fix i assume "i < nat d"
    then have "k0 * nat d + i < Suc k0 * nat d" by simp
    then show "data' ! (k0 * nat d + i) = v ! i"
      using d'(4) d1(3) \<open>i < nat d\<close> by simp
  qed
  have all: "\<forall>m<length (node # nodes). \<forall>i<nat d.
        data' ! ((k0 + m) * nat d + i)
          = the (solution_step_data eng ((node # nodes) ! m) var step) ! i"
  proof (intro allI impI)
    fix m i assume m: "m < length (node # nodes)" and i: "i < nat d"
    show "data' ! ((k0 + m) * nat d + i)
            = the (solution_step_data eng ((node # nodes) ! m) var step) ! i"
    proof (cases m)
      case 0
      then show ?thesis using first i v(1) by simp
    next
      case (Suc m')
      then have "m' < length nodes" using m by simp
      then show ?thesis using d'(3) i Suc by simp
    qed
  qed
  have old: "\<forall>j<k0 * nat d. data' ! j = data ! j"
  proof (intro allI impI)
    fix j assume j: "j < k0 * nat d"
    then have "j < Suc k0 * nat d" by simp
    then show "data' ! j = data ! j" using d'(4) d1(4) j by simp
  qed
  show ?case using step d'(1,2) d1(2) all old by simp
qed

lemma GetPythonList_loop_state:
  "snd (GetPythonList_loop var step d nodes k data eng) = eng"
  by (induction nodes arbitrary: k data)
     (auto simp: GetSolutionStepValue_def split: option.splits sum.splits)

lemma GetPythonList_state: "snd (GetPythonList self step eng) = eng"
  by (auto simp: GetPythonList_def model_getitem_def GetVariable_def Let_def
        GetPythonList_loop_state split: option.splits)

lemma GetPythonList_inner_bound:
  "GetPythonList_inner v d k js data = Inr data' \<Longrightarrow> \<forall>i\<in>set js. i < length v"
proof (induction js arbitrary: data)
  case Nil
  then show ?case by simp
next
  case (Cons i js)
  from Cons.prems obtain c data1 where s:
    "py_getitem v (int i) = Inr c"
    "GetPythonList_inner v d k js data1 = Inr data'"
    by (auto split: sum.splits)
  have "i < length v" using s(1) by (simp add: py_getitem_nat split: if_splits)
  then show ?case using Cons.IH[OF s(2)] by simp
qed

lemma py_range_bound: "\<forall>i\<in>set (py_range d). i < n \<Longrightarrow> nat d \<le> n"
proof (cases "nat d")
  case 0
  then show ?thesis by simp
next
  case (Suc m)
  assume "\<forall>i\<in>set (py_range d). i < n"
  moreover have "m \<in> set (py_range d)" using Suc by (simp add: py_range_def)
  ultimately have "m < n" by blast
  then show ?thesis using Suc by simp
qed

lemma GetPythonList_loop_success:
  "GetPythonList_loop var step d nodes k data eng = (Inr data', eng') \<Longrightarrow>
   \<forall>n\<in>set nodes. \<exists>v. solution_step_data eng n var step = Some v \<and> nat d \<le> length v"
proof (induction nodes arbitrary: k data)
  case Nil
  then show ?case by simp
next
  case (Cons node nodes)
  from Cons.prems obtain v data1 where s:
    "solution_step_data eng node var step = Some v"
    "GetPythonList_inner v d k (py_range d) data = Inr data1"
    "GetPythonList_loop var step d nodes (k + 1) data1 eng = (Inr data', eng')"
    by (auto simp: GetSolutionStepValue_def split: option.splits sum.splits)
  have "nat d \<le> length v"
    using GetPythonList_inner_bound[OF s(2)] by (rule py_range_bound)
  then show ?case using s(1) Cons.IH[OF s(3)] by simp
qed

lemma GetPythonList_success:
  assumes "GetPythonList self step eng = (Inr data, eng')"
  shows "\<exists>nodes. model_parts eng (geometry_name self) = Some nodes
           \<and> variables eng (name self)
           \<and> (\<forall>n\<in>set nodes. \<exists>v. solution_step_data eng n (name self) step = Some v
                 \<and> nat (dimension self) \<le> length v)"
proof -
  from assms obtain nodes where n: "model_parts eng (geometry_name self) = Some nodes"
    by (auto simp: GetPythonList_def model_getitem_def split: option.splits)
  have v: "variables eng (name self)"
    using assms n
    by (auto simp: GetPythonList_def model_getitem_def GetVariable_def split: if_splits)
  have "GetPythonList_loop (name self) step (dimension self) nodes 0
          (py_zeros (length nodes) (dimension self)) eng = (Inr data, eng')"
    using assms n v by (simp add: GetPythonList_def model_getitem_def GetVariable_def)
  from GetPythonList_loop_success[OF this] show ?thesis using n v by blast
qed

lemma GetPythonList_flat:
  assumes "model_parts eng (geometry_name self) = Some nodes"
    and "variables eng (name self)"
    and "0 \<le> dimension self"
    and "\<forall>n\<in>set nodes. \<exists>v.
           solution_step_data eng n (name self) step = Some v
           \<and> nat (dimension self) \<le> length v"
  shows "\<exists>data. GetPythonList self step eng = (Inr data, eng)
           \<and> length data = length nodes * nat (dimension self)
           \<and> (\<forall>k<length nodes. \<forall>i<nat (dimension self).
                 data ! (k * nat (dimension self) + i)
                   = the (solution_step_data eng (nodes ! k) (name self) step) ! i)"
proof -
  let ?data = "py_zeros (length nodes) (dimension self) :: 'a list"
  have len: "(0 + length nodes) * nat (dimension self) \<le> length ?data"
    by (simp add: py_zeros_def)
  have vals: "\<forall>m<length nodes. \<exists>v.
           solution_step_data eng (nodes ! m) (name self) step = Some v
           \<and> nat (dimension self) \<le> length v"
    using assms(4) by simp
  from GetPythonList_loop_ok[OF vals len] obtain data' where d':
    "GetPythonList_loop (name self) step (dimension self) nodes 0 ?data eng = (Inr data', eng)"
    "length data' = length ?data"
    "\<forall>m<length nodes. \<forall>i<nat (dimension self).
        data' ! ((0 + m) * nat (dimension self) + i)
          = the (solution_step_data eng (nodes ! m) (name self) step) ! i"
    by blast
  have "GetPythonList self step eng = (Inr data', eng)"
    using assms(1,2) d'(1)
    by (simp add: GetPythonList_def model_getitem_def GetVariable_def)
  then show ?thesis using d'(2,3) by (simp add: py_zeros_def)
qed

lemma ApplyUpdateToData_inner_ok:
  assumes "\<forall>i\<in>set js. i < nat d \<and> i < length uv \<and> k * nat d + i < length update"
  shows "\<exists>uv'. ApplyUpdateToData_inner update d k js uv = Inr uv'
           \<and> length uv' = length uv
           \<and> (\<forall>i\<in>set js. uv' ! i = update ! (k * nat d + i))
           \<and> (\<forall>j. j \<notin> set js \<longrightarrow> uv' ! j = uv ! j)"
  using assms
proof (induction js arbitrary: uv)
  case Nil
  then show ?case by simp
next
  case (Cons i js)
  let ?uv1 = "uv[i := update ! (k * nat d + i)]"
  have i: "i < nat d" "i < length uv" "k * nat d + i < length update"
    using Cons.prems by auto
  have step: "ApplyUpdateToData_inner update d k (i # js) uv
                = ApplyUpdateToData_inner update d k js ?uv1"
    using i by (simp add: py_getitem_flat py_setitem_nat)
  have "\<forall>i\<in>set js. i < nat d \<and> i < length ?uv1 \<and> k * nat d + i < length update"
    using Cons.prems by simp
  from Cons.IH[OF this] obtain uv' where u':
    "ApplyUpdateToData_inner update d k js ?uv1 = Inr uv'"
    "length uv' = length ?uv1"
    "\<forall>i\<in>set js. uv' ! i = update ! (k * nat d + i)"
    "\<forall>j. j \<notin> set js \<longrightarrow> uv' ! j = ?uv1 ! j"
    by blast
  have "uv' ! i = update ! (k * nat d + i)"
  proof (cases "i \<in> set js")
    case True
    then show ?thesis using u'(3) by blast
  next
    case False
    then show ?thesis using u'(4) i(2) by simp
  qed
  moreover have "\<forall>j. j \<notin> set (i # js) \<longrightarrow> uv' ! j = uv ! j"
    using u'(4) by auto
  ultimately show ?case using step u' by simp
qed

lemma ApplyUpdateToData_inner_range:
  assumes "nat d \<le> length uv" and "(Suc k) * nat d \<le> length update"
  shows "\<exists>uv'. ApplyUpdateToData_inner update d k (py_range d) uv = Inr uv'
           \<and> length uv' = length uv
           \<and> (\<forall>i<nat d. uv' ! i = update ! (k * nat d + i))
           \<and> (\<forall>j\<ge>nat d. uv' ! j = uv ! j)"
proof -
  have "\<forall>i\<in>set (py_range d). i < nat d \<and> i < length uv \<and> k * nat d + i < length update"
    using assms by (auto simp: py_range_def)
  from ApplyUpdateToData_inner_ok[OF this] obtain uv' where u':
    "ApplyUpdateToData_inner update d k (py_range d) uv = Inr uv'"
    "length uv' = length uv"
    "\<forall>i\<in>set (py_range d). uv' ! i = update ! (k * nat d + i)"
    "\<forall>j. j \<notin> set (py_range d) \<longrightarrow> uv' ! j = uv ! j"
    by blast
  have "\<forall>j\<ge>nat d. uv' ! j = uv ! j"
    using u'(4) by (simp add: py_range_def)
  moreover have "\<forall>i<nat d. uv' ! i = update ! (k * nat d + i)"
    using u'(3) by (simp add: py_range_def)
  ultimately show ?thesis using u'(1,2) by blast
qed

lemma py_getitem_IndexError: "py_getitem xs i = Inl e \<Longrightarrow> e = IndexError"
  by (auto simp: py_getitem_def Let_def split: if_splits)

lemma py_setitem_IndexError: "py_setitem xs i v = Inl e \<Longrightarrow> e = IndexError"
  by (auto simp: py_setitem_def Let_def split: if_splits)

lemma py_setitem_length: "py_setitem xs i v = Inr ys \<Longrightarrow> length ys = length xs"
  by (auto simp: py_setitem_def Let_def split: if_splits)

lemma ApplyUpdateToData_inner_IndexError:
  "ApplyUpdateToData_inner update d k js uv = Inl e \<Longrightarrow> e = IndexError"
  by (induction js arbitrary: uv)
     (auto split: sum.splits dest: py_getitem_IndexError py_setitem_IndexError)

lemma ApplyUpdateToData_inner_bound:
  "ApplyUpdateToData_inner update d k js uv = Inr uv' \<Longrightarrow> \<forall>i\<in>set js. i < length uv"
proof (induction js arbitrary: uv)
  case Nil
  then show ?case by simp
next
  case (Cons i js)
  from Cons.prems obtain c uv1 where s:
    "py_getitem update (int k * d + int i) = Inr c"
    "py_setitem uv (int i) c = Inr uv1"
    "ApplyUpdateToData_inner update d k js uv1 = Inr uv'"
    by (auto split: sum.splits)
  have "i < length uv" using s(2) by (simp add: py_setitem_nat split: if_splits)
  moreover have "length uv1 = length uv" using s(2) by (rule py_setitem_length)
  ultimately show ?case using Cons.IH[OF s(3)] by simp
qed

lemma ApplyUpdateToData_inner_overflow:
  assumes "int (length uv) < d"
  shows "ApplyUpdateToData_inner update d k (py_range d) uv = Inl IndexError"
proof (cases "ApplyUpdateToData_inner update d k (py_range d) uv")
  case (Inl e)
  then show ?thesis using ApplyUpdateToData_inner_IndexError by blast
next
  case (Inr uv')
  have "length uv \<in> set (py_range d)" using assms by (simp add: py_range_def)
  then show ?thesis using ApplyUpdateToData_inner_bound[OF Inr] by blast
qed

lemma SetSolutionStepValue_ok:
  "solution_step_data eng node var step = Some old \<Longrightarrow>
   \<exists>eng'. SetSolutionStepValue node var step val eng = (Inr (), eng')
     \<and> solution_step_data eng' node var step = Some val"
  by (simp add: SetSolutionStepValue_def)

lemma SetSolutionStepValue_frame:
  assumes "SetSolutionStepValue node var step val eng = (r, eng')"
  shows "model_parts eng' = model_parts eng"
    and "variables eng' = variables eng"
    and "n \<noteq> node \<or> v \<noteq> var \<or> s \<noteq> step
           \<Longrightarrow> solution_step_data eng' n v s = solution_step_data eng n v s"
  using assms by (auto simp: SetSolutionStepValue_def split: option.splits)

lemma SetSolutionStepValue_allocated:
  assumes "SetSolutionStepValue node var step val eng = (r, eng')"
  shows "solution_step_data eng' n v s = None \<longleftrightarrow> solution_step_data eng n v s = None"
proof (cases "n = node \<and> v = var \<and> s = step")
  case True
  then show ?thesis
    using assms by (auto simp: SetSolutionStepValue_def split: option.splits)
next
  case False
  then show ?thesis using SetSolutionStepValue_frame(3)[OF assms, of n v s] by auto
qed

lemma ApplyUpdateToData_loop_frame:
  assumes "ApplyUpdateToData_loop var update d nodes k uv eng = (r, eng')"
  shows "model_parts eng' = model_parts eng
       \<and> variables eng' = variables eng
       \<and> (\<forall>n v s. n \<notin> set nodes \<or> v \<noteq> var \<or> s \<noteq> (0::nat)
             \<longrightarrow> solution_step_data eng' n v s = solution_step_data eng n v s)
       \<and> (\<forall>n v s. solution_step_data eng' n v s = None
             \<longleftrightarrow> solution_step_data eng n v s = None)"
  using assms
proof (induction nodes arbitrary: k uv eng)
  case Nil
  then show ?case by simp
next
  case (Cons node nodes)
  show ?case
  proof (cases "ApplyUpdateToData_inner update d k (py_range d) uv")
    case (Inl e)
    then show ?thesis using Cons.prems by simp
  next
    case (Inr uv1)
    obtain r1 eng1 where set1: "SetSolutionStepValue node var 0 uv1 eng = (r1, eng1)"
      by (cases "SetSolutionStepValue node var 0 uv1 eng") auto
    note f1 = SetSolutionStepValue_frame[OF set1]
    note a1 = SetSolutionStepValue_allocated[OF set1]
    show ?thesis
    proof (cases r1)
      case (Inl e)
      then have "eng' = eng1" using Cons.prems Inr set1 by simp
      then show ?thesis using f1 a1 by auto
    next
      case (Inr u)
      then have "ApplyUpdateToData_loop var update d nodes (k + 1) uv1 eng1 = (r, eng')"
        using Cons.prems \<open>ApplyUpdateToData_inner update d k (py_range d) uv = Inr uv1\<close> set1
        by simp
      from Cons.IH[OF this] have ih:
        "model_parts eng' = model_parts eng1"
        "variables eng' = variables eng1"
        "\<forall>n v s. n \<notin> set nodes \<or> v \<noteq> var \<or> s \<noteq> (0::nat)
             \<longrightarrow> solution_step_data eng' n v s = solution_step_data eng1 n v s"
        "\<forall>n v s. solution_step_data eng' n v s = None
             \<longleftrightarrow> solution_step_data eng1 n v s = None"
        by blast+
      have "\<forall>n v s. n \<notin> set (node # nodes) \<or> v \<noteq> var \<or> s \<noteq> (0::nat)
             \<longrightarrow> solution_step_data eng' n v s = solution_step_data eng n v s"
      proof (intro allI impI)
        fix n v s assume a: "n \<notin> set (node # nodes) \<or> v \<noteq> var \<or> s \<noteq> (0::nat)"
        then have "solution_step_data eng' n v s = solution_step_data eng1 n v s"
          using ih(3) by auto
        also have "\<dots> = solution_step_data eng n v s"
          using a by (intro f1(3)) auto
        finally show "solution_step_data eng' n v s = solution_step_data eng n v s" .
      qed
      then show ?thesis using ih f1(1,2) a1 by simp
    qed
  qed
qed

lemma ApplyUpdateToData_loop_ok:
  assumes "distinct nodes"
    and "\<forall>n\<in>set nodes. solution_step_data eng n var 0 \<noteq> None"
    and "length uv = 3" and "d \<le> 3"
    and "\<forall>j. nat d \<le> j \<and> j < 3 \<longrightarrow> uv ! j = 0"
    and "(k0 + length nodes) * nat d \<le> length update"
  shows "\<exists>eng'. ApplyUpdateToData_loop var update d nodes k0 uv eng = (Inr (), eng')
           \<and> (\<forall>m<length nodes. \<exists>val.
                 solution_step_data eng' (nodes ! m) var 0 = Some val
                 \<and> length val = 3
                 \<and> (\<forall>i<nat d. val ! i = update ! ((k0 + m) * nat d + i))
                 \<and> (\<forall>j. nat d \<le> j \<and> j < 3 \<longrightarrow> val ! j = 0))"
  using assms
proof (induction nodes arbitrary: k0 uv eng)
  case Nil
  then show ?case by simp
next
  case (Cons node nodes)
  have "Suc k0 * nat d \<le> (k0 + length (node # nodes)) * nat d"
    by (intro mult_le_mono1) simp
  then have room: "Suc k0 * nat d \<le> length update"
    using Cons.prems(6) by linarith
  have fits: "nat d \<le> length uv" using Cons.prems(3,4) by simp
  from ApplyUpdateToData_inner_range[OF fits room] obtain uv1 where u1:
    "ApplyUpdateToData_inner update d k0 (py_range d) uv = Inr uv1"
    "length uv1 = length uv"
    "\<forall>i<nat d. uv1 ! i = update ! (k0 * nat d + i)"
    "\<forall>j\<ge>nat d. uv1 ! j = uv ! j"
    by blast
  from Cons.prems(2) obtain old where "solution_step_data eng node var 0 = Some old"
    by auto
  from SetSolutionStepValue_ok[OF this] obtain eng1 where e1:
    "SetSolutionStepValue node var 0 uv1 eng = (Inr (), eng1)"
    "solution_step_data eng1 node var 0 = Some uv1"
    by blast
  note a1 = SetSolutionStepValue_allocated[OF e1(1)]
  have step: "ApplyUpdateToData_loop var update d (node # nodes) k0 uv eng
                = ApplyUpdateToData_loop var update d nodes (Suc k0) uv1 eng1"
    using u1(1) e1(1) by simp
  have p1: "distinct nodes" using Cons.prems(1) by simp
  have p2: "\<forall>n\<in>set nodes. solution_step_data eng1 n var 0 \<noteq> None"
    using Cons.prems(2) a1 by simp
  have p3: "length uv1 = 3" using u1(2) Cons.prems(3) by simp
  have p5: "\<forall>j. nat d \<le> j \<and> j < 3 \<longrightarrow> uv1 ! j = 0"
    using u1(4) Cons.prems(5) by simp
  have p6: "(Suc k0 + length nodes) * nat d \<le> length update"
    using Cons.prems(6) by simp
  from Cons.IH[OF p1 p2 p3 Cons.prems(4) p5 p6] obtain eng' where e':
    "ApplyUpdateToData_loop var update d nodes (Suc k0) uv1 eng1 = (Inr (), eng')"
    "\<forall>m<length nodes. \<exists>val.
        solution_step_data eng' (nodes ! m) var 0 = Some val
        \<and> length val = 3
        \<and> (\<forall>i<nat d. val ! i = update ! ((Suc k0 + m) * nat d + i))
        \<and> (\<forall>j. nat d \<le> j \<and> j < 3 \<longrightarrow> val ! j = 0)"
    by blast
  have "node \<notin> set nodes" using Cons.prems(1) by simp
  then have "solution_step_data eng' node var 0 = solution_step_data eng1 node var 0"
    using ApplyUpdateToData_loop_frame[OF e'(1)] by blast
  then have first: "solution_step_data eng' node var 0 = Some uv1"
    using e1(2) by simp
  have "\<forall>m<length (node # nodes). \<exists>val.
          solution_step_data eng' ((node # nodes) ! m) var 0 = Some val
          \<and> length val = 3
          \<and> (\<forall>i<nat d. val ! i = update ! ((k0 + m) * nat d + i))
          \<and> (\<forall>j. nat d \<le> j \<and> j < 3 \<longrightarrow> val ! j = 0)"
  proof (intro allI impI)
    fix m assume m: "m < length (node # nodes)"
    show "\<exists>val. solution_step_data eng' ((node # nodes) ! m) var 0 = Some val
            \<and> length val = 3
            \<and> (\<forall>i<nat d. val ! i = update ! ((k0 + m) * nat d + i))
            \<and> (\<forall>j. nat d \<le> j \<and> j < 3 \<longrightarrow> val ! j = 0)"
    proof (cases m)
      case 0
      then show ?thesis using first p3 u1(3) p5 by simp
    next
      case (Suc m')
      then have "m' < length nodes" using m by simp
      then show ?thesis using e'(2) Suc by simp
    qed
  qed
  then show ?case using step e'(1) by simp
qed

lemma update_long_enough:
  assumes "int n * d \<le> int (length update)"
  shows "(0 + n) * nat d \<le> length update"
proof (cases "0 \<le> d")
  case True
  then have "int (n * nat d) = int n * d" by simp
  then have "int (n * nat d) \<le> int (length update)" using assms by linarith
  then have "n * nat d \<le> length update" by (simp only: of_nat_le_iff)
  then show ?thesis by simp
next
  case False
  then show ?thesis by simp
qed

lemma zeros3 [simp]: "length (replicate 3 (0::'a::zero)) = 3"
  by simp

lemma ApplyUpdateToData_ok:
  assumes "model_parts eng (geometry_name self) = Some nodes"
    and "variables eng (name self)"
    and "distinct nodes"
    and "\<forall>n\<in>set nodes. solution_step_data eng n (name self) 0 \<noteq> None"
    and "dimension self \<le> 3"
    and "int (length nodes) * dimension self \<le> int (length update)"
  shows "\<exists>eng'. ApplyUpdateToData self update eng = (Inr (), eng')
           \<and> (\<forall>k<length nodes. \<exists>val.
                 solution_step_data eng' (nodes ! k) (name self) 0 = Some val
                 \<and> length val = 3
                 \<and> (\<forall>i<nat (dimension self).
                       val ! i = update ! (k * nat (dimension self) + i))
                 \<and> (\<forall>j. nat (dimension self) \<le> j \<and> j < 3 \<longrightarrow> val ! j = 0))"
proof -
  let ?uv = "replicate 3 (0::'a)"
  have z: "\<forall>j. nat (dimension self) \<le> j \<and> j < 3 \<longrightarrow> ?uv ! j = 0"
    by simp
  have l: "length ?uv = 3" by simp
  note len = update_long_enough[OF assms(6)]
  from ApplyUpdateToData_loop_ok[OF assms(3,4) l assms(5) z len]
  obtain eng' where e':
    "ApplyUpdateToData_loop (name self) update (dimension self) nodes 0 ?uv eng = (Inr (), eng')"
    "\<forall>m<length nodes. \<exists>val.
        solution_step_data eng' (nodes ! m) (name self) 0 = Some val
        \<and> length val = 3
        \<and> (\<forall>i<nat (dimension self).
              val ! i = update ! ((0 + m) * nat (dimension self) + i))
        \<and> (\<forall>j. nat (dimension self) \<le> j \<and> j < 3 \<longrightarrow> val ! j = 0)"
    by blast
  have "ApplyUpdateToData self update eng = (Inr (), eng')"
    using assms(1,2) e'(1)
    by (simp add: ApplyUpdateToData_def model_getitem_def GetVariable_def)
  then show ?thesis using e'(2) by simp
qed

lemma ApplyUpdateToData_overflow:
  assumes "model_parts eng (geometry_name self) = Some nodes"
    and "variables eng (name self)"
    and "3 < dimension self"
    and "nodes \<noteq> []"
  shows "ApplyUpdateToData self update eng = (Inl IndexError, eng)"
proof -
  obtain node rest where nodes: "nodes = node # rest"
    using assms(4) by (cases nodes) auto
  have "int (length (replicate 3 (0::'a))) < dimension self"
    using assms(3) by simp
  from ApplyUpdateToData_inner_overflow[OF this]
  have "ApplyUpdateToData_inner update (dimension self) 0 (py_range (dimension self))
          (replicate 3 (0::'a)) = Inl IndexError" .
  then show ?thesis
    using assms(1,2) nodes
    by (simp add: ApplyUpdateToData_def model_getitem_def GetVariable_def)
qed

lemma ApplyUpdateToData_frame:
  assumes "ApplyUpdateToData self update eng = (r, eng')"
  shows "model_parts eng' = model_parts eng"
    and "variables eng' = variables eng"
    and "\<forall>n v s. n \<notin> set (case model_parts eng (geometry_name self) of
                                None \<Rightarrow> [] | Some nodes \<Rightarrow> nodes)
               \<or> v \<noteq> name self \<or> s \<noteq> (0::nat)
             \<longrightarrow> solution_step_data eng' n v s = solution_step_data eng n v s"
proof -
  have "model_parts eng' = model_parts eng \<and> variables eng' = variables eng
      \<and> (\<forall>n v s. n \<notin> set (case model_parts eng (geometry_name self) of
                                None \<Rightarrow> [] | Some nodes \<Rightarrow> nodes)
               \<or> v \<noteq> name self \<or> s \<noteq> (0::nat)
             \<longrightarrow> solution_step_data eng' n v s = solution_step_data eng n v s)"
  proof (cases "model_parts eng (geometry_name self)")
    case None
    then have "eng' = eng"
      using assms by (simp add: ApplyUpdateToData_def model_getitem_def)
    then show ?thesis by simp
  next
    case (Some nodes)
    show ?thesis
    proof (cases "variables eng (name self)")
      case False
      then have "eng' = eng"
        using assms Some
        by (simp add: ApplyUpdateToData_def model_getitem_def GetVariable_def)
      then show ?thesis by simp
    next
      case True
      then have "ApplyUpdateToData_loop (name self) update (dimension self) nodes 0
                   (replicate 3 0) eng = (r, eng')"
        using assms Some
        by (simp add: ApplyUpdateToData_def model_getitem_def GetVariable_def)
      from ApplyUpdateToData_loop_frame[OF this] show ?thesis
        using Some by simp
    qed
  qed
  then show "model_parts eng' = model_parts eng"
    and "variables eng' = variables eng"
    and "\<forall>n v s. n \<notin> set (case model_parts eng (geometry_name self) of
                                None \<Rightarrow> [] | Some nodes \<Rightarrow> nodes)
               \<or> v \<noteq> name self \<or> s \<noteq> (0::nat)
             \<longrightarrow> solution_step_data eng' n v s = solution_step_data eng n v s"
    by blast+
qed

lemma ApplyUpdateToData_loop_three:
  assumes "\<forall>n\<in>set nodes. solution_step_data eng n var 0 \<noteq> None"
    and "length uv = 3" and "d \<le> 3"
    and "\<forall>j. nat d \<le> j \<and> j < 3 \<longrightarrow> uv ! j = 0"
    and "(k0 + length nodes) * nat d \<le> length update"
  shows "\<exists>eng'. ApplyUpdateToData_loop var update d nodes k0 uv eng = (Inr (), eng')
           \<and> (\<forall>n\<in>set nodes. \<exists>val.
                 solution_step_data eng' n var 0 = Some val
                 \<and> length val = 3
                 \<and> (\<forall>j. nat d \<le> j \<and> j < 3 \<longrightarrow> val ! j = 0))"
  using assms
proof (induction nodes arbitrary: k0 uv eng)
  case Nil
  then show ?case by simp
next
  case (Cons node nodes)
  have "Suc k0 * nat d \<le> (k0 + length (node # nodes)) * nat d"
    by (intro mult_le_mono1) simp
  then have room: "Suc k0 * nat d \<le> length update"
    using Cons.prems(5) by linarith
  have fits: "nat d \<le> length uv" using Cons.prems(2,3) by simp
  from ApplyUpdateToData_inner_range[OF fits room] obtain uv1 where u1:
    "ApplyUpdateToData_inner update d k0 (py_range d) uv = Inr uv1"
    "length uv1 = length uv"
    "\<forall>j\<ge>nat d. uv1 ! j = uv ! j"
    by blast
  from Cons.prems(1) obtain old where "solution_step_data eng node var 0 = Some old"
    by auto
  from SetSolutionStepValue_ok[OF this] obtain eng1 where e1:
    "SetSolutionStepValue node var 0 uv1 eng = (Inr (), eng1)"
    "solution_step_data eng1 node var 0 = Some uv1"
    by blast
  note a1 = SetSolutionStepValue_allocated[OF e1(1)]
  have step: "ApplyUpdateToData_loop var update d (node # nodes) k0 uv eng
                = ApplyUpdateToData_loop var update d nodes (Suc k0) uv1 eng1"
    using u1(1) e1(1) by simp
  have p1: "\<forall>n\<in>set nodes. solution_step_data eng1 n var 0 \<noteq> None"
    using Cons.prems(1) a1 by simp
  have p2: "length uv1 = 3" using u1(2) Cons.prems(2) by simp
  have p4: "\<forall>j. nat d \<le> j \<and> j < 3 \<longrightarrow> uv1 ! j = 0"
    using u1(3) Cons.prems(4) by simp
  have p5: "(Suc k0 + length nodes) * nat d \<le> length update"
    using Cons.prems(5) by simp
  from Cons.IH[OF p1 p2 Cons.prems(3) p4 p5] obtain eng' where e':
    "ApplyUpdateToData_loop var update d nodes (Suc k0) uv1 eng1 = (Inr (), eng')"
    "\<forall>n\<in>set nodes. \<exists>val.
        solution_step_data eng' n var 0 = Some val
        \<and> length val = 3
        \<and> (\<forall>j. nat d \<le> j \<and> j < 3 \<longrightarrow> val ! j = 0)"
    by blast
  have head: "\<exists>val. solution_step_data eng' node var 0 = Some val
        \<and> length val = 3
        \<and> (\<forall>j. nat d \<le> j \<and> j < 3 \<longrightarrow> val ! j = 0)"
  proof (cases "node \<in> set nodes")
    case True
    then show ?thesis using e'(2) by blast
  next
    case False
    then have "solution_step_data eng' node var 0 = solution_step_data eng1 node var 0"
      using ApplyUpdateToData_loop_frame[OF e'(1)] by blast
    then show ?thesis using e1(2) p2 p4 by simp
  qed
  show ?case using step e'(1) e'(2) head by simp
qed

lemma ApplyUpdateToData_three:
  assumes "model_parts eng (geometry_name self) = Some nodes"
    and "variables eng (name self)"
    and "\<forall>n\<in>set nodes. solution_step_data eng n (name self) 0 \<noteq> None"
    and "dimension self \<le> 3"
    and "int (length nodes) * dimension self \<le> int (length update)"
  shows "\<exists>eng'. ApplyUpdateToData self update eng = (Inr (), eng')
           \<and> (\<forall>n\<in>set nodes. \<exists>val.
                 solution_step_data eng' n (name self) 0 = Some val
                 \<and> length val = 3
                 \<and> (\<forall>j. nat (dimension self) \<le> j \<and> j < 3 \<longrightarrow> val ! j = 0))"
proof -
  let ?uv = "replicate 3 (0::'a)"
  have z: "\<forall>j. nat (dimension self) \<le> j \<and> j < 3 \<longrightarrow> ?uv ! j = 0"
    by simp
  have l: "length ?uv = 3" by simp
  note len = update_long_enough[OF assms(5)]
  from ApplyUpdateToData_loop_three[OF assms(3) l assms(4) z len]
  obtain eng' where e':
    "ApplyUpdateToData_loop (name self) update (dimension self) nodes 0 ?uv eng = (Inr (), eng')"
    "\<forall>n\<in>set nodes. \<exists>val.
        solution_step_data eng' n (name self) 0 = Some val
        \<and> length val = 3
        \<and> (\<forall>j. nat (dimension self) \<le> j \<and> j < 3 \<longrightarrow> val ! j = 0)"
    by blast
  have "ApplyUpdateToData self update eng = (Inr (), eng')"
    using assms(1,2) e'(1)
    by (simp add: ApplyUpdateToData_def model_getitem_def GetVariable_def)
  then show ?thesis using e'(2) by blast
qed

lemma GetNumpyArray_state: "snd (GetNumpyArray f self step eng) = eng"
  using GetPythonList_state[of self step eng]
  by (cases "GetPythonList self step eng") (auto simp: GetNumpyArray_def split: sum.splits)

lemma SetSolutionStepValue_same:
  "solution_step_data eng node var step = Some val \<Longrightarrow>
   SetSolutionStepValue node var step val eng = (Inr (), eng)"
proof -
  assume a: "solution_step_data eng node var step = Some val"
  then have "(solution_step_data eng node var)(step \<mapsto> val) = solution_step_data eng node var"
    by (rule map_upd_triv)
  then show ?thesis using a by (simp add: SetSolutionStepValue_def)
qed

lemma ApplyUpdateToData_loop_same:
  assumes "length uv = 3"
    and "\<forall>m<length nodes. \<exists>val.
           solution_step_data eng (nodes ! m) var 0 = Some val \<and> length val = 3
           \<and> (\<forall>i<3. update ! ((k0 + m) * 3 + i) = val ! i)"
    and "(k0 + length nodes) * 3 \<le> length update"
  shows "ApplyUpdateToData_loop var update 3 nodes k0 uv eng = (Inr (), eng)"
  using assms
proof (induction nodes arbitrary: k0 uv)
  case Nil
  then show ?case by simp
next
  case (Cons node nodes)
  from Cons.prems(2) obtain val where val:
    "solution_step_data eng node var 0 = Some val" "length val = 3"
    "\<forall>i<3. update ! (k0 * 3 + i) = val ! i"
    by fastforce
  have room: "Suc k0 * nat 3 \<le> length update" using Cons.prems(3) by simp
  have fits: "nat 3 \<le> length uv" using Cons.prems(1) by simp
  from ApplyUpdateToData_inner_range[OF fits room] obtain uv1 where u1:
    "ApplyUpdateToData_inner update 3 k0 (py_range 3) uv = Inr uv1"
    "length uv1 = length uv"
    "\<forall>i<nat 3. uv1 ! i = update ! (k0 * nat 3 + i)"
    by blast
  have "uv1 = val"
  proof (rule nth_equalityI)
    show "length uv1 = length val" using u1(2) Cons.prems(1) val(2) by simp
  next
    fix i assume "i < length uv1"
    then have "i < 3" using u1(2) Cons.prems(1) by simp
    then show "uv1 ! i = val ! i" using u1(3) val(3) by simp
  qed
  then have set1: "SetSolutionStepValue node var 0 uv1 eng = (Inr (), eng)"
    using SetSolutionStepValue_same[OF val(1)] by simp
  have step: "ApplyUpdateToData_loop var update 3 (node # nodes) k0 uv eng
                = ApplyUpdateToData_loop var update 3 nodes (Suc k0) uv1 eng"
    using u1(1) set1 by simp
  have p1: "length uv1 = 3" using u1(2) Cons.prems(1) by simp
  have p2: "\<forall>m<length nodes. \<exists>val.
           solution_step_data eng (nodes ! m) var 0 = Some val \<and> length val = 3
           \<and> (\<forall>i<3. update ! ((Suc k0 + m) * 3 + i) = val ! i)"
  proof (intro allI impI)
    fix m assume "m < length nodes"
    then have "Suc m < length (node # nodes)" by simp
    from Cons.prems(2)[rule_format, OF this]
    show "\<exists>val. solution_step_data eng (nodes ! m) var 0 = Some val \<and> length val = 3
           \<and> (\<forall>i<3. update ! ((Suc k0 + m) * 3 + i) = val ! i)"
      by simp
  qed
  have p3: "(Suc k0 + length nodes) * 3 \<le> length update" using Cons.prems(3) by simp
  show ?case using step Cons.IH[OF p1 p2 p3] by simp
qed

lemma round_trip_after_get:
  assumes "dimension self = 3"
    and "\<forall>nodes. model_parts eng (geometry_name self) = Some nodes \<longrightarrow>
           (\<forall>n\<in>set nodes. \<forall>v. solution_step_data eng n (name self) 0 = Some v
                \<longrightarrow> length v \<le> 3)"
    and g: "GetPythonList self 0 eng = (Inr data, eng)"
  shows "ApplyUpdateToData self data eng = (Inr (), eng)"
proof -
  from GetPythonList_success[OF g] obtain nodes where n:
    "model_parts eng (geometry_name self) = Some nodes"
    "variables eng (name self)"
    "\<forall>n\<in>set nodes. \<exists>v. solution_step_data eng n (name self) 0 = Some v
        \<and> nat (dimension self) \<le> length v"
    by blast
  have d0: "0 \<le> dimension self" using assms(1) by simp
  from GetPythonList_flat[OF n(1,2) d0 n(3)] g have data:
    "length data = length nodes * nat (dimension self)"
    "\<forall>k<length nodes. \<forall>i<nat (dimension self).
        data ! (k * nat (dimension self) + i)
          = the (solution_step_data eng (nodes ! k) (name self) 0) ! i"
    by auto
  have vals: "\<forall>m<length nodes. \<exists>val.
         solution_step_data eng (nodes ! m) (name self) 0 = Some val \<and> length val = 3
         \<and> (\<forall>i<3. data ! ((0 + m) * 3 + i) = val ! i)"
  proof (intro allI impI)
    fix m assume m: "m < length nodes"
    then have mem: "nodes ! m \<in> set nodes" by simp
    with n(3) obtain v where v:
      "solution_step_data eng (nodes ! m) (name self) 0 = Some v" "3 \<le> length v"
      using assms(1) by auto
    have "length v \<le> 3" using assms(2) n(1) mem v(1) by blast
    then have "length v = 3" using v(2) by simp
    moreover have "\<forall>i<3. data ! ((0 + m) * 3 + i) = v ! i"
      using data(2) m v(1) assms(1) by simp
    ultimately show "\<exists>val. solution_step_data eng (nodes ! m) (name self) 0 = Some val
         \<and> length val = 3 \<and> (\<forall>i<3. data ! ((0 + m) * 3 + i) = val ! i)"
      using v(1) by blast
  qed
  have len: "(0 + length nodes) * 3 \<le> length data" using data(1) assms(1) by simp
  have l3: "length (replicate 3 (0::'a)) = 3" by simp
  from ApplyUpdateToData_loop_same[OF l3 vals len]
  show ?thesis
    using n(1,2) assms(1)
    by (simp add: ApplyUpdateToData_def model_getitem_def GetVariable_def)
qed

lemma round_trip_unchanged:
  assumes "dimension self = 3"
    and "\<forall>nodes. model_parts eng (geometry_name self) = Some nodes \<longrightarrow>
           (\<forall>n\<in>set nodes. \<forall>v. solution_step_data eng n (name self) 0 = Some v
                \<longrightarrow> length v \<le> 3)"
  shows "snd (ApplyUpdateToData_of_GetPythonList self eng) = eng"
proof (cases "GetPythonList self 0 eng")
  case (Pair r eng1)
  have eng1: "eng1 = eng" using GetPythonList_state[of self 0 eng] Pair by simp
  show ?thesis
  proof (cases r)
    case (Inl e)
    then show ?thesis using Pair eng1 by (simp add: ApplyUpdateToData_of_GetPythonList_def)
  next
    case (Inr data)
    then have g: "GetPythonList self 0 eng = (Inr data, eng)" using Pair eng1 by simp
    from round_trip_after_get[OF assms g] show ?thesis
      using g by (simp add: ApplyUpdateToData_of_GetPythonList_def)
  qed
qed

lemma round_trip_succeeds:
  assumes "dimension self = 3"
    and "model_parts eng (geometry_name self) = Some nodes"
    and "variables eng (name self)"
    and "\<forall>n\<in>set nodes. \<exists>v. solution_step_data eng n (name self) 0 = Some v
           \<and> length v = 3"
  shows "ApplyUpdateToData_of_GetPythonList self eng = (Inr (), eng)"
proof -
  have d0: "0 \<le> dimension self" using assms(1) by simp
  have vals: "\<forall>n\<in>set nodes. \<exists>v. solution_step_data eng n (name self) 0 = Some v
           \<and> nat (dimension self) \<le> length v"
    using assms(1,4) by fastforce
  from GetPythonList_flat[OF assms(2,3) d0 vals] obtain data where
    g: "GetPythonList self 0 eng = (Inr data, eng)" by blast
  have le: "\<forall>nodes. model_parts eng (geometry_name self) = Some nodes \<longrightarrow>
           (\<forall>n\<in>set nodes. \<forall>v. solution_step_data eng n (name self) 0 = Some v
                \<longrightarrow> length v \<le> 3)"
    using assms(2,4) by fastforce
  from round_trip_after_get[OF assms(1) le g] show ?thesis
    using g by (simp add: ApplyUpdateToData_of_GetPythonList_def)
qed

section \<open>Properties of the scope, the test factory and exceptions\<close>

lemma py_with_ok:
  assumes "directories st (scope mgr)"
    and "body (st\<lparr>cwd := scope mgr\<rparr>) = (r, st2)"
    and "directories st2 (currentPath mgr)"
  shows "py_with mgr body st = (r, st2\<lparr>cwd := currentPath mgr\<rparr>)"
  using assms
  by (simp add: py_with_def controlledExecutionScope_enter_def
        controlledExecutionScope_exit_def os_chdir_def)

lemma py_with_enter_fails:
  "\<not> directories st (scope mgr) \<Longrightarrow> py_with mgr body st = (Inl OSError, st)"
  by (simp add: py_with_def controlledExecutionScope_enter_def os_chdir_def)

lemma py_with_exit_fails:
  assumes "directories st (scope mgr)"
    and "body (st\<lparr>cwd := scope mgr\<rparr>) = (r, st2)"
    and "\<not> directories st2 (currentPath mgr)"
  shows "py_with mgr body st = (Inl OSError, st2)"
  using assms
  by (simp add: py_with_def controlledExecutionScope_enter_def
        controlledExecutionScope_exit_def os_chdir_def)









lemma ApplyUpdateToData_loop_success:
  "ApplyUpdateToData_loop var update d nodes k uv eng = (Inr u, eng') \<Longrightarrow>
   \<forall>n\<in>set nodes. solution_step_data eng n var 0 \<noteq> None"
proof (induction nodes arbitrary: k uv eng)
  case Nil
  then show ?case by simp
next
  case (Cons node nodes)
  from Cons.prems obtain uv1 where u1:
    "ApplyUpdateToData_inner update d k (py_range d) uv = Inr uv1"
    by (auto split: sum.splits)
  obtain r1 eng1 where set1: "SetSolutionStepValue node var 0 uv1 eng = (r1, eng1)"
    by (cases "SetSolutionStepValue node var 0 uv1 eng") auto
  have r1: "r1 = Inr ()" using Cons.prems u1 set1 by (cases r1) auto
  then have rest: "ApplyUpdateToData_loop var update d nodes (k + 1) uv1 eng1 = (Inr u, eng')"
    using Cons.prems u1 set1 by simp
  have head: "solution_step_data eng node var 0 \<noteq> None"
    using set1 r1 by (auto simp: SetSolutionStepValue_def split: option.splits)
  have "\<forall>n\<in>set nodes. solution_step_data eng n var 0 \<noteq> None"
    using Cons.IH[OF rest] SetSolutionStepValue_allocated[OF set1] by simp
  then show ?case using head by simp
qed

lemma ApplyUpdateToData_success:
  assumes "ApplyUpdateToData self update eng = (Inr u, eng')"
  shows "\<exists>nodes. model_parts eng (geometry_name self) = Some nodes
           \<and> variables eng (name self)
           \<and> (\<forall>n\<in>set nodes. solution_step_data eng n (name self) 0 \<noteq> None)"
proof -
  from assms obtain nodes where n: "model_parts eng (geometry_name self) = Some nodes"
    by (auto simp: ApplyUpdateToData_def model_getitem_def split: option.splits)
  have v: "variables eng (name self)"
    using assms n
    by (auto simp: ApplyUpdateToData_def model_getitem_def GetVariable_def split: if_splits)
  have "ApplyUpdateToData_loop (name self) update (dimension self) nodes 0
          (replicate 3 0) eng = (Inr u, eng')"
    using assms n v by (simp add: ApplyUpdateToData_def model_getitem_def GetVariable_def)
  from ApplyUpdateToData_loop_success[OF this] show ?thesis using n v by blast
qed

subsection \<open>Calls in sequence, the scope at construction, and where exceptions come from\<close>




















lemma three_components:
  "length v = 3 \<Longrightarrow> v = [v ! 0, v ! 1, v ! 2]"
  by (auto simp: length_Suc_conv eval_nat_numeral)





section \<open>CouplingInterfaceData: the claims\<close>

lemmas example_defs =
  example_engine_def example_data_def model_getitem_def GetVariable_def
  GetSolutionStepValue_def SetSolutionStepValue_def py_zeros_def py_range_def
  py_getitem_def py_setitem_def upt_rec eval_nat_numeral

text \<open>
  C1, as stated, fails: with the configured dimension 4 and values of three components,
  \<open>data_value[3]\<close> raises IndexError on the first node, although \<open>4 \<ge> 0\<close> and the
  model part holds two nodes.
\<close>

theorem GetPythonList_dimension_counterexample:
  "0 \<le> dimension (example_data ''DISPLACEMENT'' 4 ''interface'')
   \<and> model_parts example_engine ''interface'' = Some [1, 2]
   \<and> GetPythonList (example_data ''DISPLACEMENT'' 4 ''interface'') 0 example_engine
       = (Inl IndexError, example_engine)"
  by (simp add: GetPythonList_def example_defs)

text \<open>
  C1, amended: when the model part exists with the nodes \<open>nodes\<close>, the variable is
  registered, the dimension \<open>d\<close> is not negative and every node holds at the solution
  step a value of at least \<open>d\<close> components, \<open>GetPythonList\<close> returns a list of length
  \<open>n * d\<close> whose entry \<open>k * d + i\<close> is component \<open>i\<close> of the value of node \<open>k\<close>, and
  leaves the engine state as it was.
\<close>

theorem GetPythonList_returns_flat_list:
  assumes "model_parts eng (geometry_name self) = Some nodes"
    and "variables eng (name self)"
    and "0 \<le> dimension self"
    and "\<forall>n\<in>set nodes. \<exists>v.
           solution_step_data eng n (name self) step = Some v
           \<and> nat (dimension self) \<le> length v"
  shows "\<exists>data. GetPythonList self step eng = (Inr data, eng)
           \<and> length data = length nodes * nat (dimension self)
           \<and> (\<forall>k<length nodes. \<forall>i<nat (dimension self).
                 data ! (k * nat (dimension self) + i)
                   = the (solution_step_data eng (nodes ! k) (name self) step) ! i)"
  using assms by (rule GetPythonList_flat)

theorem GetPythonList_returns_flat_list_witness:
  "(model_parts example_engine (geometry_name (example_data ''DISPLACEMENT'' 3 ''interface''))
      = Some [1, 2]
    \<and> variables example_engine (name (example_data ''DISPLACEMENT'' 3 ''interface''))
    \<and> 0 \<le> dimension (example_data ''DISPLACEMENT'' 3 ''interface''))
   \<and> (\<exists>data. GetPythonList (example_data ''DISPLACEMENT'' 3 ''interface'') 0 example_engine
                 = (Inr data, example_engine)
          \<and> length data
              = length [1, 2 :: nat] * nat (dimension (example_data ''DISPLACEMENT'' 3 ''interface'')))"
proof -
  let ?self = "example_data ''DISPLACEMENT'' 3 ''interface''"
  have h1: "model_parts example_engine (geometry_name ?self) = Some [1, 2]"
    by (simp add: example_engine_def example_data_def)
  have h2: "variables example_engine (name ?self)"
    by (simp add: example_engine_def example_data_def)
  have h3: "0 \<le> dimension ?self"
    by (simp add: example_data_def)
  have h4: "\<forall>n\<in>set [1, 2]. \<exists>v.
           solution_step_data example_engine n (name ?self) 0 = Some v
           \<and> nat (dimension ?self) \<le> length v"
    by (simp add: example_engine_def example_data_def)
  show ?thesis
    using h1 h2 h3 GetPythonList_returns_flat_list[OF h1 h2 h3 h4] by blast
qed

text \<open>
  C2, as stated, fails: with the configured dimension 4 and an update of 8 entries for
  two nodes, the write \<open>updated_value[3]\<close> raises IndexError on the first node and
  nothing is stored.
\<close>

theorem ApplyUpdateToData_dimension_counterexample:
  "int (length [1, 2 :: nat]) * dimension (example_data ''DISPLACEMENT'' 4 ''interface'')
     \<le> int (length [1, 2, 3, 4, 5, 6, 7, 8 :: real])
   \<and> ApplyUpdateToData (example_data ''DISPLACEMENT'' 4 ''interface'')
         [1, 2, 3, 4, 5, 6, 7, 8] example_engine
       = (Inl IndexError, example_engine)"
  by (simp add: ApplyUpdateToData_def example_defs)

text \<open>
  C2, amended: when the dimension \<open>d\<close> is at most 3, the model part exists with
  pairwise distinct nodes, the variable is registered and has storage at solution step 0
  on every node, and the update has at least \<open>n * d\<close> entries, \<open>ApplyUpdateToData\<close>
  returns normally and node \<open>k\<close> then holds at solution step 0 the three-component
  buffer handed to \<open>SetSolutionStepValue\<close>: component \<open>i\<close> is \<open>update[k * d + i]\<close> for
  every \<open>i < d\<close>, and the components from \<open>d\<close> on are 0. Nothing else is computed or
  stored: the model parts, the registered variables and the value of every other node,
  variable and solution step are as before.
\<close>

theorem ApplyUpdateToData_stores_update:
  assumes "model_parts eng (geometry_name self) = Some nodes"
    and "variables eng (name self)"
    and "distinct nodes"
    and "\<forall>n\<in>set nodes. solution_step_data eng n (name self) 0 \<noteq> None"
    and "dimension self \<le> 3"
    and "int (length nodes) * dimension self \<le> int (length update)"
  shows "\<exists>eng'. ApplyUpdateToData self update eng = (Inr (), eng')
           \<and> model_parts eng' = model_parts eng
           \<and> variables eng' = variables eng
           \<and> (\<forall>k<length nodes. \<exists>val.
                 solution_step_data eng' (nodes ! k) (name self) 0 = Some val
                 \<and> length val = 3
                 \<and> (\<forall>i<nat (dimension self).
                       val ! i = update ! (k * nat (dimension self) + i))
                 \<and> (\<forall>j. nat (dimension self) \<le> j \<and> j < 3 \<longrightarrow> val ! j = 0))
           \<and> (\<forall>n v s. n \<notin> set nodes \<or> v \<noteq> name self \<or> s \<noteq> (0::nat)
                 \<longrightarrow> solution_step_data eng' n v s = solution_step_data eng n v s)"
proof -
  from ApplyUpdateToData_ok[OF assms] obtain eng' where
    a: "ApplyUpdateToData self update eng = (Inr (), eng')"
    and b: "\<forall>k<length nodes. \<exists>val.
        solution_step_data eng' (nodes ! k) (name self) 0 = Some val
        \<and> length val = 3
        \<and> (\<forall>i<nat (dimension self). val ! i = update ! (k * nat (dimension self) + i))
        \<and> (\<forall>j. nat (dimension self) \<le> j \<and> j < 3 \<longrightarrow> val ! j = 0)"
    by blast
  note f = ApplyUpdateToData_frame[OF a]
  have c: "\<forall>n v s. n \<notin> set nodes \<or> v \<noteq> name self \<or> s \<noteq> (0::nat)
             \<longrightarrow> solution_step_data eng' n v s = solution_step_data eng n v s"
    using f(3) assms(1) by simp
  show ?thesis using a b c f(1,2) by (intro exI[of _ eng'] conjI)
qed

theorem ApplyUpdateToData_stores_update_witness:
  "(model_parts example_engine (geometry_name (example_data ''DISPLACEMENT'' 2 ''interface''))
      = Some [1, 2]
    \<and> variables example_engine (name (example_data ''DISPLACEMENT'' 2 ''interface''))
    \<and> distinct [1, 2 :: nat]
    \<and> dimension (example_data ''DISPLACEMENT'' 2 ''interface'') \<le> 3
    \<and> int (length [1, 2 :: nat]) * dimension (example_data ''DISPLACEMENT'' 2 ''interface'')
         \<le> int (length [5, 6, 7, 8 :: real]))
   \<and> (\<exists>eng'. ApplyUpdateToData (example_data ''DISPLACEMENT'' 2 ''interface'')
                  [5, 6, 7, 8] example_engine = (Inr (), eng')
         \<and> model_parts eng' = model_parts example_engine
         \<and> variables eng' = variables example_engine
         \<and> solution_step_data eng' 1 ''DISPLACEMENT'' 0 = Some [5, 6, 0]
         \<and> solution_step_data eng' 2 ''DISPLACEMENT'' 0 = Some [7, 8, 0]
         \<and> solution_step_data eng' 1 ''STRESS'' 0 = Some [1, 1, 2, 3]
         \<and> solution_step_data eng' 1 ''DISPLACEMENT'' 1 = Some [1, 10, 20]
         \<and> solution_step_data eng' 3 ''DISPLACEMENT'' 0 = Some [3, 10, 20])"
proof -
  let ?self = "example_data ''DISPLACEMENT'' 2 ''interface''"
  have h1: "model_parts example_engine (geometry_name ?self) = Some [1, 2]"
    by (simp add: example_engine_def example_data_def)
  have h2: "variables example_engine (name ?self)"
    by (simp add: example_engine_def example_data_def)
  have h3: "distinct [1, 2 :: nat]" by simp
  have h4: "\<forall>n\<in>set [1, 2]. solution_step_data example_engine n (name ?self) 0 \<noteq> None"
    by (simp add: example_engine_def example_data_def)
  have h5: "dimension ?self \<le> 3" by (simp add: example_data_def)
  have h6: "int (length [1, 2 :: nat]) * dimension ?self \<le> int (length [5, 6, 7, 8 :: real])"
    by (simp add: example_data_def)
  from ApplyUpdateToData_stores_update[OF h1 h2 h3 h4 h5 h6] obtain eng' where
    a: "ApplyUpdateToData ?self [5, 6, 7, 8] example_engine = (Inr (), eng')"
    and m: "model_parts eng' = model_parts example_engine"
    and v: "variables eng' = variables example_engine"
    and b: "\<forall>k<length [1, 2 :: nat]. \<exists>val.
        solution_step_data eng' ([1, 2] ! k) (name ?self) 0 = Some val
        \<and> length val = 3
        \<and> (\<forall>i<nat (dimension ?self). val ! i = [5, 6, 7, 8] ! (k * nat (dimension ?self) + i))
        \<and> (\<forall>j. nat (dimension ?self) \<le> j \<and> j < 3 \<longrightarrow> val ! j = 0)"
    and c: "\<forall>n v s. n \<notin> set [1, 2] \<or> v \<noteq> name ?self \<or> s \<noteq> (0::nat)
        \<longrightarrow> solution_step_data eng' n v s = solution_step_data example_engine n v s"
    by (elim exE conjE)
  have d: "nat (dimension ?self) = 2" "name ?self = ''DISPLACEMENT''"
    by (simp_all add: example_data_def)
  from b[rule_format, of 0] obtain v0 where v0:
    "solution_step_data eng' 1 ''DISPLACEMENT'' 0 = Some v0" "length v0 = 3"
    "\<forall>i<2. v0 ! i = [5, 6, 7, 8 :: real] ! (0 * 2 + i)"
    "\<forall>j. 2 \<le> j \<and> j < 3 \<longrightarrow> v0 ! j = 0"
    unfolding d by auto
  from b[rule_format, of 1] obtain v1 where v1:
    "solution_step_data eng' 2 ''DISPLACEMENT'' 0 = Some v1" "length v1 = 3"
    "\<forall>i<2. v1 ! i = [5, 6, 7, 8 :: real] ! (1 * 2 + i)"
    "\<forall>j. 2 \<le> j \<and> j < 3 \<longrightarrow> v1 ! j = 0"
    unfolding d by auto
  have e0: "v0 ! 0 = 5" "v0 ! 1 = 6" "v0 ! 2 = 0"
    using v0(3)[rule_format, of 0] v0(3)[rule_format, of 1] v0(4)[rule_format, of 2]
    by simp_all
  have e1: "v1 ! 0 = 7" "v1 ! 1 = 8" "v1 ! 2 = 0"
    using v1(3)[rule_format, of 0] v1(3)[rule_format, of 1] v1(4)[rule_format, of 2]
    by (simp_all add: eval_nat_numeral)
  have s0: "solution_step_data eng' 1 ''DISPLACEMENT'' 0 = Some [5, 6, 0]"
    using v0(1) three_components[OF v0(2)] e0 by simp
  have s1: "solution_step_data eng' 2 ''DISPLACEMENT'' 0 = Some [7, 8, 0]"
    using v1(1) three_components[OF v1(2)] e1 by simp
  have f1: "solution_step_data eng' 1 ''STRESS'' 0 = Some [1, 1, 2, 3]"
    using c[rule_format, of 1 "''STRESS''" 0] by (simp add: d example_engine_def)
  have f2: "solution_step_data eng' 1 ''DISPLACEMENT'' 1 = Some [1, 10, 20]"
    using c[rule_format, of 1 "''DISPLACEMENT''" 1] by (simp add: d example_engine_def)
  have f3: "solution_step_data eng' 3 ''DISPLACEMENT'' 0 = Some [3, 10, 20]"
    using c[rule_format, of 3 "''DISPLACEMENT''" 0] by (simp add: d example_engine_def)
  have "\<exists>eng'. ApplyUpdateToData ?self [5, 6, 7, 8] example_engine = (Inr (), eng')
         \<and> model_parts eng' = model_parts example_engine
         \<and> variables eng' = variables example_engine
         \<and> solution_step_data eng' 1 ''DISPLACEMENT'' 0 = Some [5, 6, 0]
         \<and> solution_step_data eng' 2 ''DISPLACEMENT'' 0 = Some [7, 8, 0]
         \<and> solution_step_data eng' 1 ''STRESS'' 0 = Some [1, 1, 2, 3]
         \<and> solution_step_data eng' 1 ''DISPLACEMENT'' 1 = Some [1, 10, 20]
         \<and> solution_step_data eng' 3 ''DISPLACEMENT'' 0 = Some [3, 10, 20]"
    using a m v s0 s1 f1 f2 f3 by (intro exI[of _ eng'] conjI)
  then show ?thesis using h1 h2 h3 h5 h6 by (intro conjI)
qed

text \<open>
  C6, as stated, fails twice. On a model part without nodes the loop body never runs, so
  the call returns normally also for the dimension 4. And with an update shorter than
  \<open>n * d\<close> the call stops with IndexError before a node is written, so not every node
  receives a value.
\<close>

theorem ApplyUpdateToData_three_components_counterexample:
  "3 < dimension (example_data ''DISPLACEMENT'' 4 ''empty'')
   \<and> ApplyUpdateToData (example_data ''DISPLACEMENT'' 4 ''empty'') [] example_engine
       = (Inr (), example_engine)
   \<and> dimension (example_data ''DISPLACEMENT'' 1 ''interface'') < 3
   \<and> ApplyUpdateToData (example_data ''DISPLACEMENT'' 1 ''interface'') [] example_engine
       = (Inl IndexError, example_engine)"
  by (simp add: ApplyUpdateToData_def example_defs)

text \<open>
  C6, amended: let the model part exist and the variable be registered. If the dimension
  \<open>d\<close> is at most 3, the nodes have storage for the variable at solution step 0 and
  the update has at least \<open>n * d\<close> entries, then the call returns normally and every
  node holds a value of exactly 3 components whose components \<open>d\<close> to 2 are 0. If
  \<open>d\<close> exceeds 3 and the model part has a node, the call raises IndexError and the
  engine state is as before.
\<close>

theorem ApplyUpdateToData_three_components:
  assumes "model_parts eng (geometry_name self) = Some nodes"
    and "variables eng (name self)"
  shows "(dimension self \<le> 3
          \<and> (\<forall>n\<in>set nodes. solution_step_data eng n (name self) 0 \<noteq> None)
          \<and> int (length nodes) * dimension self \<le> int (length update)
          \<longrightarrow> (\<exists>eng'. ApplyUpdateToData self update eng = (Inr (), eng')
                 \<and> (\<forall>n\<in>set nodes. \<exists>val.
                       solution_step_data eng' n (name self) 0 = Some val
                       \<and> length val = 3
                       \<and> (\<forall>j. nat (dimension self) \<le> j \<and> j < 3 \<longrightarrow> val ! j = 0))))
       \<and> (3 < dimension self \<and> nodes \<noteq> []
          \<longrightarrow> ApplyUpdateToData self update eng = (Inl IndexError, eng))"
proof (intro conjI impI)
  assume a: "dimension self \<le> 3
          \<and> (\<forall>n\<in>set nodes. solution_step_data eng n (name self) 0 \<noteq> None)
          \<and> int (length nodes) * dimension self \<le> int (length update)"
  then have a2: "\<forall>n\<in>set nodes. solution_step_data eng n (name self) 0 \<noteq> None"
    and a3: "dimension self \<le> 3"
    and a4: "int (length nodes) * dimension self \<le> int (length update)"
    by blast+
  show "\<exists>eng'. ApplyUpdateToData self update eng = (Inr (), eng')
                 \<and> (\<forall>n\<in>set nodes. \<exists>val.
                       solution_step_data eng' n (name self) 0 = Some val
                       \<and> length val = 3
                       \<and> (\<forall>j. nat (dimension self) \<le> j \<and> j < 3 \<longrightarrow> val ! j = 0))"
    using assms a2 a3 a4 by (rule ApplyUpdateToData_three)
next
  assume "3 < dimension self \<and> nodes \<noteq> []"
  then show "ApplyUpdateToData self update eng = (Inl IndexError, eng)"
    using ApplyUpdateToData_overflow[OF assms] by blast
qed

theorem ApplyUpdateToData_three_components_witness:
  "(\<exists>eng'. ApplyUpdateToData (example_data ''DISPLACEMENT'' 2 ''interface'')
               [5, 6, 7, 8] example_engine = (Inr (), eng')
       \<and> (\<forall>n\<in>set [1, 2]. \<exists>val.
             solution_step_data eng' n (name (example_data ''DISPLACEMENT'' 2 ''interface'')) 0
               = Some val
             \<and> length val = 3
             \<and> (\<forall>j. nat (dimension (example_data ''DISPLACEMENT'' 2 ''interface'')) \<le> j
                   \<and> j < 3 \<longrightarrow> val ! j = 0)))
   \<and> ApplyUpdateToData (example_data ''DISPLACEMENT'' 4 ''interface'')
        [5, 6, 7, 8] example_engine = (Inl IndexError, example_engine)"
proof -
  let ?a = "example_data ''DISPLACEMENT'' 2 ''interface''"
  let ?b = "example_data ''DISPLACEMENT'' 4 ''interface''"
  have a1: "model_parts example_engine (geometry_name ?a) = Some [1, 2]"
    by (simp add: example_engine_def example_data_def)
  have a2: "variables example_engine (name ?a)"
    by (simp add: example_engine_def example_data_def)
  have a3: "dimension ?a \<le> 3
          \<and> (\<forall>n\<in>set [1, 2]. solution_step_data example_engine n (name ?a) 0 \<noteq> None)
          \<and> int (length [1, 2 :: nat]) * dimension ?a \<le> int (length [5, 6, 7, 8 :: real])"
    by (simp add: example_engine_def example_data_def)
  have b1: "model_parts example_engine (geometry_name ?b) = Some [1, 2]"
    by (simp add: example_engine_def example_data_def)
  have b2: "variables example_engine (name ?b)"
    by (simp add: example_engine_def example_data_def)
  have b3: "3 < dimension ?b \<and> [1, 2 :: nat] \<noteq> []"
    by (simp add: example_data_def)
  note ta = ApplyUpdateToData_three_components[OF a1 a2, of "[5, 6, 7, 8]"]
  note tb = ApplyUpdateToData_three_components[OF b1 b2, of "[5, 6, 7, 8]"]
  show ?thesis
    using ta[THEN conjunct1, THEN mp, OF a3] tb[THEN conjunct2, THEN mp, OF b3]
    by (intro conjI)
qed

text \<open>
  C7, as stated, fails: a value of four components comes back from the round trip with
  its first three components only, though the configured dimension is exactly 3.
\<close>

theorem round_trip_counterexample:
  "dimension (example_data ''STRESS'' 3 ''interface'') = 3
   \<and> solution_step_data example_engine 1 ''STRESS'' 0 = Some [1, 1, 2, 3]
   \<and> solution_step_data
        (snd (ApplyUpdateToData_of_GetPythonList (example_data ''STRESS'' 3 ''interface'')
                example_engine)) 1 ''STRESS'' 0
       = Some [1, 1, 2]"
  by (simp add: ApplyUpdateToData_of_GetPythonList_def GetPythonList_def
        ApplyUpdateToData_def example_defs)

text \<open>
  C7, amended: with the configured dimension exactly 3, when no node of the model part
  holds at solution step 0 a value of more than 3 components, the round trip
  \<open>ApplyUpdateToData(GetPythonList(0))\<close> leaves the whole engine state, and so the
  value on every node, unchanged; and when the model part exists, the variable is
  registered and every node holds a value of exactly 3 components, the round trip
  returns normally.
\<close>

theorem round_trip_leaves_values:
  assumes "dimension self = 3"
    and "\<forall>nodes. model_parts eng (geometry_name self) = Some nodes \<longrightarrow>
           (\<forall>n\<in>set nodes. \<forall>v. solution_step_data eng n (name self) 0 = Some v
                \<longrightarrow> length v \<le> 3)"
  shows "snd (ApplyUpdateToData_of_GetPythonList self eng) = eng
       \<and> ((\<exists>nodes. model_parts eng (geometry_name self) = Some nodes
              \<and> variables eng (name self)
              \<and> (\<forall>n\<in>set nodes. \<exists>v. solution_step_data eng n (name self) 0 = Some v
                    \<and> length v = 3))
            \<longrightarrow> fst (ApplyUpdateToData_of_GetPythonList self eng) = Inr ())"
proof (intro conjI impI)
  show "snd (ApplyUpdateToData_of_GetPythonList self eng) = eng"
    using assms by (rule round_trip_unchanged)
next
  assume "\<exists>nodes. model_parts eng (geometry_name self) = Some nodes
              \<and> variables eng (name self)
              \<and> (\<forall>n\<in>set nodes. \<exists>v. solution_step_data eng n (name self) 0 = Some v
                    \<and> length v = 3)"
  then obtain nodes where n:
    "model_parts eng (geometry_name self) = Some nodes"
    "variables eng (name self)"
    "\<forall>n\<in>set nodes. \<exists>v. solution_step_data eng n (name self) 0 = Some v \<and> length v = 3"
    by blast
  from round_trip_succeeds[OF assms(1) n]
  show "fst (ApplyUpdateToData_of_GetPythonList self eng) = Inr ()" by simp
qed

theorem round_trip_leaves_values_witness:
  "dimension (example_data ''DISPLACEMENT'' 3 ''interface'') = 3
   \<and> snd (ApplyUpdateToData_of_GetPythonList (example_data ''DISPLACEMENT'' 3 ''interface'')
            example_engine) = example_engine
   \<and> fst (ApplyUpdateToData_of_GetPythonList (example_data ''DISPLACEMENT'' 3 ''interface'')
            example_engine) = Inr ()"
proof -
  let ?self = "example_data ''DISPLACEMENT'' 3 ''interface''"
  have h1: "dimension ?self = 3" by (simp add: example_data_def)
  have h2: "\<forall>nodes. model_parts example_engine (geometry_name ?self) = Some nodes \<longrightarrow>
           (\<forall>n\<in>set nodes. \<forall>v. solution_step_data example_engine n (name ?self) 0 = Some v
                \<longrightarrow> length v \<le> 3)"
    by (auto simp: example_engine_def example_data_def split: if_splits)
  have h3: "\<exists>nodes. model_parts example_engine (geometry_name ?self) = Some nodes
              \<and> variables example_engine (name ?self)
              \<and> (\<forall>n\<in>set nodes. \<exists>v.
                    solution_step_data example_engine n (name ?self) 0 = Some v
                    \<and> length v = 3)"
    by (simp add: example_engine_def example_data_def)
  show ?thesis
    using h1 h3 round_trip_leaves_values[OF h1 h2] by blast
qed

text \<open>
  C8: \<open>GetPythonList\<close> and \<open>GetNumpyArray\<close> return the engine state they were given,
  whatever their result. \<open>ApplyUpdateToData\<close>, whether it returns or raises, leaves the
  model parts and the registered variables as they were, and leaves the value of every
  node, variable and solution step other than solution step 0 of the configured variable
  on the nodes of the configured model part.
\<close>

theorem CouplingInterfaceData_frame:
  "snd (GetPythonList self step eng) = eng
   \<and> snd (GetNumpyArray to_float64 self step eng) = eng
   \<and> model_parts (snd (ApplyUpdateToData self update eng)) = model_parts eng
   \<and> variables (snd (ApplyUpdateToData self update eng)) = variables eng
   \<and> (\<forall>n v s. n \<notin> set (case model_parts eng (geometry_name self) of
                            None \<Rightarrow> [] | Some nodes \<Rightarrow> nodes)
            \<or> v \<noteq> name self \<or> s \<noteq> (0::nat)
          \<longrightarrow> solution_step_data (snd (ApplyUpdateToData self update eng)) n v s
              = solution_step_data eng n v s)"
proof -
  obtain r eng' where a: "ApplyUpdateToData self update eng = (r, eng')"
    by (cases "ApplyUpdateToData self update eng") auto
  note f = ApplyUpdateToData_frame[OF a]
  show ?thesis
    using GetPythonList_state[of self step eng]
      GetNumpyArray_state[of to_float64 self step eng] f a
    by simp
qed

theorem CouplingInterfaceData_frame_witness:
  "3 \<notin> set (case model_parts example_engine
                    (geometry_name (example_data ''DISPLACEMENT'' 3 ''interface'')) of
                 None \<Rightarrow> [] | Some nodes \<Rightarrow> nodes)
   \<and> solution_step_data
        (snd (ApplyUpdateToData (example_data ''DISPLACEMENT'' 3 ''interface'')
                [5, 6, 7, 8, 9, 10] example_engine)) 3 ''DISPLACEMENT'' 0
       = solution_step_data example_engine 3 ''DISPLACEMENT'' 0"
proof -
  let ?self = "example_data ''DISPLACEMENT'' 3 ''interface''"
  have h: "3 \<notin> set (case model_parts example_engine (geometry_name ?self) of
                       None \<Rightarrow> [] | Some nodes \<Rightarrow> nodes)"
    by (simp add: example_engine_def example_data_def)
  show ?thesis
    using h CouplingInterfaceData_frame
              [of ?self 0 example_engine id "[5, 6, 7, 8, 9, 10]"]
    by blast
qed

section \<open>SmallTestsMPI: the claims\<close>







section \<open>Exceptions: the claim\<close>




section \<open>The main programs: the claims\<close>

text \<open>
  C3: the code binds the parsed \<open>Parameters\<close> to the second parameter of the
  constructor, \<open>iteration\<close>, so it reaches the post-process tool, and the analysis
  object's \<open>project_parameters\<close> is the default \<open>Parameters("{}")\<close>, whatever the
  file holds. The claim, that the parsed object becomes \<open>project_parameters\<close>, holds
  only for a file whose text is \<open>{}\<close>.
\<close>

theorem main_project_parameters_are_default:
  "FluidFractionTestAnalysis_main (example_swimming_dem contents)
     = Inr \<lparr>projector_post_process =
              ErrorProjectionPostProcessTool (Parameters_object (Parameters contents)),
            project_parameters = Parameters ''{}''\<rparr>"
  by (simp add: FluidFractionTestAnalysis_main_def FluidFractionTestAnalysis_init_def
        example_swimming_dem_def)

text \<open>
  C9: the module does not compile, since \<open>2d_fsi\<close> is not an identifier; the test case
  class has no method that the unittest runner would run; and \<open>Finalize\<close> raises
  NameError, since the class it names in \<open>super\<close> is not a global of the module.
\<close>

theorem TestAnalytics_is_not_runnable:
  "py_compile main_fsi_aitken_for_testing = Inl SyntaxError
   \<and> getTestCaseNames (methods_of main_fsi_aitken_for_testing ''TestAnalytics'') = []
   \<and> Finalize main_fsi_aitken_for_testing = Inl NameError"
  by (simp add: py_compile_def getTestCaseNames_def Finalize_def load_global_def
        main_fsi_aitken_for_testing_def is_identifier_start_def)

end
